theory Spec2Isabelle
  imports Main "HOL-Library.AList"
begin

section \<open>Python values used by the RAG backend\<close>

text \<open>
  Strings are byte lists. Python dictionaries are association lists in insertion order:
  \<open>d[k] = v\<close> is \<open>AList.update k v d\<close> (an existing key keeps its place, a new key is
  appended), \<open>del d[k]\<close> is \<open>AList.delete k d\<close>, \<open>d.get(k)\<close> is \<open>map_of d k\<close>.
  Exceptions are values of \<open>py_error\<close>; a function that can raise returns
  \<open>py_error + 'a\<close> with \<open>Inl\<close> for the exception.
\<close>

datatype py_error =
    KeyError string
  | ExternalError string
  | HTTPException nat

text \<open>\<open>ExternalError msg\<close> is any exception raised inside an external collaborator
  (text splitter, vector store, embedding model, retriever, language model, file system,
  CSV parser); \<open>msg\<close> is its \<open>str(e)\<close>.\<close>

definition digit_char :: "nat \<Rightarrow> char" where
  "digit_char d = ''0123456789'' ! d"

fun show_nat :: "nat \<Rightarrow> string" where
  "show_nat n = (if n < 10 then [digit_char n] else show_nat (n div 10) @ [digit_char (n mod 10)])"

declare show_nat.simps [simp del]

definition show_int :: "int \<Rightarrow> string" where
  "show_int i = (if i < 0 then CHR ''-'' # show_nat (nat (- i)) else show_nat (nat i))"

text \<open>Metadata values are Python scalars; \<open>py_str\<close> is what an f-string writes for them.\<close>

datatype meta_value = MStr string | MInt int

fun py_str :: "meta_value \<Rightarrow> string" where
  "py_str (MStr s) = s"
| "py_str (MInt i) = show_int i"

section \<open>rag\_doc\_vect\_embedding\_csv.py: DocumentProcessor\<close>

text \<open>langchain's \<open>Document\<close>: page content and a metadata dictionary.\<close>

record document =
  page_content :: string
  metadata :: "(string \<times> meta_value) list"

record DocumentProcessor =
  chunk_size :: int
  chunk_overlap :: int

text \<open>\<open>__init__(self, chunk_size=500, chunk_overlap=50)\<close> stores its two arguments and
  checks nothing.\<close>

definition DocumentProcessor_init :: "int \<Rightarrow> int \<Rightarrow> DocumentProcessor" where
  "DocumentProcessor_init csize coverlap = \<lparr>chunk_size = csize, chunk_overlap = coverlap\<rparr>"

definition DocumentProcessor_default :: DocumentProcessor where
  "DocumentProcessor_default = DocumentProcessor_init 500 50"

text \<open>
  \<open>RecursiveCharacterTextSplitter\<close> is an external library class. Its constructor is a
  parameter of the model: given chunk size, chunk overlap and the separator list it either
  raises or returns the function that cuts a text into pieces.
\<close>

type_synonym text_splitter = "string \<Rightarrow> string list"
type_synonym splitter_ctor = "int \<Rightarrow> int \<Rightarrow> string list \<Rightarrow> py_error + text_splitter"

definition separators :: "string list" where
  "separators = [[CHR 0x0A, CHR 0x0A], [CHR 0x0A], [CHR 0xE3, CHR 0x80, CHR 0x82], ''.'', '' '', '''']"

text \<open>\<open>text_splitter.split_documents([doc])\<close>: one new document per piece, each with a
  copy of the metadata of \<open>doc\<close>.\<close>

definition split_documents :: "text_splitter \<Rightarrow> document \<Rightarrow> document list" where
  "split_documents sp doc =
     map (\<lambda>t. \<lparr>page_content = t, metadata = metadata doc\<rparr>) (sp (page_content doc))"

text \<open>\<open>doc.metadata.get('id', f'doc_{len(chunked_docs)}')\<close>\<close>

definition original_id_of :: "document \<Rightarrow> nat \<Rightarrow> meta_value" where
  "original_id_of doc n =
     (case map_of (metadata doc) ''id'' of
        Some v \<Rightarrow> v
      | None \<Rightarrow> MStr (''doc_'' @ show_nat n))"

text \<open>The \<open>chunk.metadata.update({...})\<close> of one chunk: three keys written in the order
  of the dictionary literal.\<close>

definition annotate_chunk :: "meta_value \<Rightarrow> nat \<Rightarrow> document \<Rightarrow> document" where
  "annotate_chunk oid i chunk =
     chunk\<lparr>metadata :=
       AList.update ''original_id'' oid
         (AList.update ''chunk_index'' (MInt (int i))
           (AList.update ''chunk_id'' (MStr (py_str oid @ ''_'' @ show_nat i))
             (metadata chunk)))\<rparr>"

text \<open>The inner loop \<open>for i, chunk in enumerate(chunks)\<close>, counting from \<open>i\<close>.\<close>

fun annotate_chunks :: "meta_value \<Rightarrow> nat \<Rightarrow> document list \<Rightarrow> document list" where
  "annotate_chunks oid i [] = []"
| "annotate_chunks oid i (chunk # chunks) =
     annotate_chunk oid i chunk # annotate_chunks oid (Suc i) chunks"

text \<open>The outer loop \<open>for doc in documents\<close> with the accumulator \<open>chunked_docs\<close>; the
  fallback id is built from the accumulator's length before the document's chunks are
  appended.\<close>

fun chunk_loop :: "text_splitter \<Rightarrow> document list \<Rightarrow> document list \<Rightarrow> document list" where
  "chunk_loop sp [] chunked_docs = chunked_docs"
| "chunk_loop sp (doc # documents) chunked_docs =
     chunk_loop sp documents
       (chunked_docs @
        annotate_chunks (original_id_of doc (length chunked_docs)) 0 (split_documents sp doc))"

definition chunk_documents ::
  "splitter_ctor \<Rightarrow> DocumentProcessor \<Rightarrow> document list \<Rightarrow> py_error + document list" where
  "chunk_documents new_splitter self documents =
     (case new_splitter (chunk_size self) (chunk_overlap self) separators of
        Inl e \<Rightarrow> Inl e
      | Inr sp \<Rightarrow> Inr (chunk_loop sp documents []))"

subsection \<open>The vector store\<close>

text \<open>
  Modelled from the spec: the vector store is an external collaborator (section 6:
  upsert-by-id, delete-by-id). It is a dictionary from entry id to the stored chunk;
  the embedding vector, a function of the chunk's text, is left out. Each call may raise
  instead (the store or the embedding service is unavailable): the fault argument is the
  exception's message when it does.
\<close>

type_synonym vector_store = "(string \<times> document) list"

definition vs_delete :: "string option \<Rightarrow> string list \<Rightarrow> vector_store \<Rightarrow> py_error + vector_store" where
  "vs_delete fault ids vs =
     (case fault of
        Some msg \<Rightarrow> Inl (ExternalError msg)
      | None \<Rightarrow> Inr (filter (\<lambda>entry. fst entry \<notin> set ids) vs))"

definition upsert_all :: "(string \<times> document) list \<Rightarrow> vector_store \<Rightarrow> vector_store" where
  "upsert_all entries vs = fold (\<lambda>entry s. AList.update (fst entry) (snd entry) s) entries vs"

definition vs_add_documents ::
  "string option \<Rightarrow> document list \<Rightarrow> string list \<Rightarrow> vector_store \<Rightarrow> py_error + vector_store" where
  "vs_add_documents fault docs ids vs =
     (case fault of
        Some msg \<Rightarrow> Inl (ExternalError msg)
      | None \<Rightarrow> Inr (upsert_all (zip ids docs) vs))"

definition vs_count :: "vector_store \<Rightarrow> nat" where
  "vs_count vs = length vs"

definition vs_ids :: "vector_store \<Rightarrow> string set" where
  "vs_ids vs = fst ` set vs"

text \<open>\<open>[doc.metadata["chunk_id"] for doc in chunked_documents]\<close>; a missing key raises
  \<open>KeyError\<close>. \<open>chunk_documents\<close> always stores a \<open>str\<close> under that key.\<close>

fun chunk_id_list :: "document list \<Rightarrow> py_error + string list" where
  "chunk_id_list [] = Inr []"
| "chunk_id_list (doc # docs) =
     (case map_of (metadata doc) ''chunk_id'' of
        None \<Rightarrow> Inl (KeyError ''chunk_id'')
      | Some v \<Rightarrow>
          (case chunk_id_list docs of
             Inl e \<Rightarrow> Inl e
           | Inr ids \<Rightarrow> Inr (py_str v # ids)))"

text \<open>The two store calls of one commit and whether each raises.\<close>

record store_faults =
  delete_fault :: "string option"
  add_fault :: "string option"

definition no_faults :: store_faults where
  "no_faults = \<lparr>delete_fault = None, add_fault = None\<rparr>"

text \<open>
  \<open>process_and_store\<close>: chunk, compute the ids, try to delete them (an exception of
  the delete is swallowed), add the chunks under the ids. Any other exception is raised
  again; the store keeps what was done before it. The result is the number of chunks.
\<close>

definition process_and_store ::
  "splitter_ctor \<Rightarrow> store_faults \<Rightarrow> DocumentProcessor \<Rightarrow> document list \<Rightarrow> vector_store
     \<Rightarrow> (py_error + nat) \<times> vector_store" where
  "process_and_store new_splitter faults self documents vs =
     (case chunk_documents new_splitter self documents of
        Inl e \<Rightarrow> (Inl e, vs)
      | Inr chunked_documents \<Rightarrow>
          (case chunk_id_list chunked_documents of
             Inl e \<Rightarrow> (Inl e, vs)
           | Inr new_ids \<Rightarrow>
               (let vs1 = (case vs_delete (delete_fault faults) new_ids vs of
                             Inl e \<Rightarrow> vs
                           | Inr vs' \<Rightarrow> vs')
                in case vs_add_documents (add_fault faults) chunked_documents new_ids vs1 of
                     Inl e \<Rightarrow> (Inl e, vs1)
                   | Inr vs2 \<Rightarrow> (Inr (length chunked_documents), vs2))))"


subsection \<open>What the chunker is expected to produce\<close>

text \<open>A chunk is well labelled when its metadata holds an original id, a chunk index
  \<open>i \<ge> 0\<close> and the chunk id \<open>{original_id}_{chunk_index}\<close>.\<close>

definition well_labelled :: "document \<Rightarrow> bool" where
  "well_labelled c =
     (case map_of (metadata c) ''original_id'' of
        None \<Rightarrow> False
      | Some oid \<Rightarrow>
          (case map_of (metadata c) ''chunk_index'' of
             Some (MInt i) \<Rightarrow>
               0 \<le> i \<and>
               map_of (metadata c) ''chunk_id'' = Some (MStr (py_str oid @ ''_'' @ show_int i))
           | _ \<Rightarrow> False))"

text \<open>The chunk ids in order, written from the format \<open>{original_id}_{chunk_index}\<close>:
  document by document, the index running over the document's pieces, \<open>n\<close> the number of
  chunks made before the document.\<close>

fun expected_chunk_ids :: "text_splitter \<Rightarrow> nat \<Rightarrow> document list \<Rightarrow> string list" where
  "expected_chunk_ids sp n [] = []"
| "expected_chunk_ids sp n (doc # docs) =
     map (\<lambda>i. py_str (original_id_of doc n) @ ''_'' @ show_nat i)
         [0..<length (sp (page_content doc))]
     @ expected_chunk_ids sp (n + length (sp (page_content doc))) docs"


section \<open>api\_server.py\<close>

subsection \<open>Records of the in-memory registries\<close>

text \<open>Times are microseconds since the epoch, the resolution of \<open>datetime\<close>; an ISO
  string written by \<open>isoformat()\<close> and read back by \<open>fromisoformat\<close> is the same
  instant.\<close>

type_synonym time = int

definition one_hour :: int where
  "one_hour = 3600 * 1000000"

text \<open>The status strings the server writes: \<open>"active"\<close> for a knowledge base,
  \<open>"processing"\<close>, \<open>"completed"\<close>, \<open>"failed"\<close> for a document record, and the five
  task states.\<close>

datatype status = Active | Processing | Retrieving | Generating | Completed | Failed

record knowledge_base =
  kb_ident :: string
  kb_name :: string
  kb_description :: string
  kb_chunk_method :: string
  kb_chunk_size :: int
  kb_chunk_overlap :: int
  document_count :: int
  chunk_count :: int
  kb_status :: status
  kb_created_at :: time

record document_record =
  doc_id :: string
  doc_name :: string
  kb_id :: string
  file_path :: "string option"
  doc_size :: string
  doc_status :: status
  chunk_num :: int
  doc_created_at :: time
  doc_type :: string

text \<open>The \<open>result\<close> payload of a completed task (constant fields left out).\<close>

record chat_completion =
  completion_id :: string
  created :: int
  completion_model :: string
  completion_content :: string
  prompt_tokens :: nat
  completion_tokens :: nat
  total_tokens :: nat

text \<open>The \<open>message\<close> texts of a task, one constructor per literal of the source:
  retrieving, generating, answer complete, answer complete (demo mode),
  processing failed with \<open>str(e)\<close>, system error with \<open>str(e)\<close>.\<close>

datatype task_message =
    MsgRetrieving
  | MsgGenerating
  | MsgAnswered
  | MsgAnsweredDemo
  | MsgProcessingFailed string
  | MsgSystemError string

text \<open>A chat task is a dictionary; every key but \<open>status\<close> may be absent (the handler
  of the outermost \<open>except\<close> builds a task from \<open>chat_tasks.get(task_id, {})\<close>).\<close>

record chat_task =
  task_status :: status
  task_result :: "chat_completion option"
  task_created_at :: "time option"
  task_question :: "string option"
  task_message :: "task_message option"
  task_error :: "string option"
  completed_at :: "time option"
  failed_at :: "time option"

text \<open>A parsed CSV file (a pandas data frame): the column names and the rows, each row
  one cell per column; \<open>None\<close> is a missing value (\<open>pd.notna\<close> is false), \<open>Some s\<close>
  a value that an f-string writes as \<open>s\<close>.\<close>

record dataframe =
  df_columns :: "string list"
  df_rows :: "string option list list"

text \<open>The process-wide state: the three registries, the vector store, and the files
  under \<open>./data\<close> by path.\<close>

record app_state =
  knowledge_bases :: "(string \<times> knowledge_base) list"
  documents_storage :: "(string \<times> document_record) list"
  chat_tasks :: "(string \<times> chat_task) list"
  vector_store :: vector_store
  files :: "(string \<times> string) list"

text \<open>
  The external collaborators and library calls, as parameters:
  whether the RAG modules were imported, the text splitter's constructor,
  \<open>retriever.invoke\<close> and \<open>chain.invoke\<close> (\<open>Inl msg\<close> when the call raises an
  exception \<open>e\<close> with \<open>str(e) = msg\<close>; the chain's answer is a \<open>str\<close>),
  \<open>hashlib.md5(s.encode()).hexdigest()\<close>,
  \<open>Path(p).suffix.lower()\<close>, the CSV parser behind \<open>pd.read_csv\<close> (on the file's bytes),
  the UTF-8 decoding of a text file, and the demo-mode answer template around a question.
\<close>

record environment =
  RAG_AVAILABLE :: bool
  new_splitter :: splitter_ctor
  retriever_invoke :: "string \<Rightarrow> string + document list"
  chain_invoke :: "document list \<Rightarrow> string \<Rightarrow> string + string"
  md5_hexdigest :: "string \<Rightarrow> string"
  path_suffix_lower :: "string \<Rightarrow> string"
  parse_csv :: "string \<Rightarrow> py_error + dataframe"
  decode_utf8 :: "string \<Rightarrow> py_error + string"
  mock_answer :: "string \<Rightarrow> string"

text \<open>A JSON response: its \<open>code\<close> and, on success, its \<open>data\<close>.\<close>

datatype 'a response = Response nat "'a option"

fun response_code :: "'a response \<Rightarrow> nat" where
  "response_code (Response c d) = c"

subsection \<open>String helpers of Python\<close>

text \<open>
  Strings are UTF-8 bytes, Python's \<open>str\<close> is a sequence of code points. The
  whitespace that \<open>str.strip()\<close> and \<open>str.split()\<close> remove is every character for
  which \<open>str.isspace\<close> holds: the ASCII ones (one byte each) and U+0085, U+00A0,
  U+1680, U+2000 to U+200A, U+2028, U+2029, U+202F, U+205F and U+3000, here by
  their encodings. An encoding starts with a lead byte, so it matches only where a
  character starts.
\<close>

definition is_space :: "char \<Rightarrow> bool" where
  "is_space c = (c \<in> set [CHR 0x09, CHR 0x0A, CHR 0x0B, CHR 0x0C, CHR 0x0D,
                           CHR 0x1C, CHR 0x1D, CHR 0x1E, CHR 0x1F, CHR 0x20])"

definition unicode_spaces :: "string list" where
  "unicode_spaces =
     [[CHR 0xC2, CHR 0x85], [CHR 0xC2, CHR 0xA0], [CHR 0xE1, CHR 0x9A, CHR 0x80],
      [CHR 0xE2, CHR 0x80, CHR 0x80], [CHR 0xE2, CHR 0x80, CHR 0x81],
      [CHR 0xE2, CHR 0x80, CHR 0x82], [CHR 0xE2, CHR 0x80, CHR 0x83],
      [CHR 0xE2, CHR 0x80, CHR 0x84], [CHR 0xE2, CHR 0x80, CHR 0x85],
      [CHR 0xE2, CHR 0x80, CHR 0x86], [CHR 0xE2, CHR 0x80, CHR 0x87],
      [CHR 0xE2, CHR 0x80, CHR 0x88], [CHR 0xE2, CHR 0x80, CHR 0x89],
      [CHR 0xE2, CHR 0x80, CHR 0x8A], [CHR 0xE2, CHR 0x80, CHR 0xA8],
      [CHR 0xE2, CHR 0x80, CHR 0xA9], [CHR 0xE2, CHR 0x80, CHR 0xAF],
      [CHR 0xE2, CHR 0x81, CHR 0x9F], [CHR 0xE3, CHR 0x80, CHR 0x80]]"

text \<open>The number of bytes of the whitespace character that a string starts with, 0 when
  it starts with none; the multi-byte encodings are given (reversed for a string read
  from its end).\<close>

definition space_width :: "string list \<Rightarrow> string \<Rightarrow> nat" where
  "space_width encodings s =
     (case s of
        [] \<Rightarrow> 0
      | c # cs \<Rightarrow>
          if is_space c then 1
          else (case List.find (\<lambda>w. take (length w) s = w) encodings of
                  Some w \<Rightarrow> length w
                | None \<Rightarrow> 0))"

function strip_left :: "string list \<Rightarrow> string \<Rightarrow> string" where
  "strip_left encodings s =
     (if space_width encodings s = 0 then s
      else strip_left encodings (drop (space_width encodings s) s))"
  by pat_completeness auto
termination
  by (relation "measure (\<lambda>(encodings, s). length s)")
     (auto simp: space_width_def split: list.splits)

declare strip_left.simps [simp del]

definition py_strip :: "string \<Rightarrow> string" where
  "py_strip s = rev (strip_left (map rev unicode_spaces) (rev (strip_left unicode_spaces s)))"

text \<open>\<open>s.split()\<close>: the maximal runs of characters that are not whitespace; \<open>w\<close> is the
  run read so far.\<close>

function py_split_from :: "string \<Rightarrow> string \<Rightarrow> string list" where
  "py_split_from w s =
     (if s = [] then (if w = [] then [] else [w])
      else if space_width unicode_spaces s = 0 then py_split_from (w @ [hd s]) (tl s)
      else if w = [] then py_split_from [] (drop (space_width unicode_spaces s) s)
      else w # py_split_from [] (drop (space_width unicode_spaces s) s))"
  by pat_completeness auto
termination
  by (relation "measure (\<lambda>(w, s). length s)")
     (auto simp: space_width_def split: list.splits)

declare py_split_from.simps [simp del]

definition py_split :: "string \<Rightarrow> string list" where
  "py_split s = py_split_from [] s"

text \<open>\<open>len(s)\<close> of a \<open>str\<close>: the number of code points, that is of bytes that are not
  continuation bytes.\<close>

definition py_len :: "string \<Rightarrow> nat" where
  "py_len s =
     length (filter (\<lambda>c. \<not> (0x80 \<le> (of_char c :: nat) \<and> (of_char c :: nat) < 0xC0)) s)"

text \<open>\<open>str(e)\<close> of a \<open>KeyError\<close>: the \<open>repr\<close> of the key, in single quotes.\<close>

definition key_error_str :: "string \<Rightarrow> string" where
  "key_error_str k = [CHR 0x27] @ k @ [CHR 0x27]"

subsection \<open>Helper functions\<close>

definition generate_doc_id :: "environment \<Rightarrow> string \<Rightarrow> string" where
  "generate_doc_id env filename = ''doc_'' @ take 8 (md5_hexdigest env filename)"

definition generate_kb_id :: "environment \<Rightarrow> string \<Rightarrow> string" where
  "generate_kb_id env name = ''kb_'' @ take 8 (md5_hexdigest env name)"

text \<open>\<open>row[col]\<close> when present and not NaN.\<close>

definition cell_at :: "string list \<Rightarrow> string option list \<Rightarrow> string \<Rightarrow> string option" where
  "cell_at cols row col = (case map_of (zip cols row) col of Some (Some v) \<Rightarrow> Some v | _ \<Rightarrow> None)"

text \<open>The two Chinese labels of the source, "title: " and "description: ", as the
  UTF-8 bytes of the two characters each is written with, a colon and a space.\<close>

definition title_label :: string where
  "title_label = [CHR 0xE6, CHR 0xA0, CHR 0x87, CHR 0xE9, CHR 0xA2, CHR 0x98, CHR 0x3A, CHR 0x20]"

definition desc_label :: string where
  "desc_label = [CHR 0xE6, CHR 0x8F, CHR 0x8F, CHR 0xE8, CHR 0xBF, CHR 0xB0, CHR 0x3A, CHR 0x20]"

text \<open>The content built for one row: title line, description line, then one
  \<open>col: value\<close> line for every other column with a value.\<close>

definition row_content :: "string list \<Rightarrow> string option list \<Rightarrow> string" where
  "row_content cols row =
     (case cell_at cols row ''Title'' of
        Some v \<Rightarrow> title_label @ v @ [CHR 0x0A] | None \<Rightarrow> [])
     @ (case cell_at cols row ''desc'' of
          Some v \<Rightarrow> desc_label @ v @ [CHR 0x0A] | None \<Rightarrow> [])
     @ concat (map (\<lambda>col.
          if col \<notin> set [''Title'', ''desc'']
          then (case cell_at cols row col of
                  Some v \<Rightarrow> col @ '': '' @ v @ [CHR 0x0A] | None \<Rightarrow> [])
          else []) cols)"

text \<open>The loop \<open>for i, row in df.iterrows()\<close>: a row whose stripped content is empty
  adds no document.\<close>

fun csv_documents ::
  "string \<Rightarrow> string \<Rightarrow> string list \<Rightarrow> nat \<Rightarrow> string option list list \<Rightarrow> document list" where
  "csv_documents csv_path kbid cols i [] = []"
| "csv_documents csv_path kbid cols i (row # rows) =
     (if py_strip (row_content cols row) \<noteq> []
      then \<lparr>page_content = py_strip (row_content cols row),
            metadata = [(''source'', MStr csv_path), (''row_id'', MInt (int i)),
                        (''kb_id'', MStr kbid), (''type'', MStr ''csv_row'')]\<rparr>
           # csv_documents csv_path kbid cols (Suc i) rows
      else csv_documents csv_path kbid cols (Suc i) rows)"

text \<open>\<open>pd.read_csv(path)\<close>: a missing file raises, otherwise the parser decides.\<close>

definition read_csv :: "environment \<Rightarrow> app_state \<Rightarrow> string \<Rightarrow> py_error + dataframe" where
  "read_csv env st path =
     (case map_of (files st) path of
        None \<Rightarrow> Inl (ExternalError ''FileNotFoundError'')
      | Some bytes \<Rightarrow> parse_csv env bytes)"

text \<open>\<open>process_csv_to_vector_store\<close>: every exception ends in \<open>return False\<close>.\<close>

definition process_csv_to_vector_store ::
  "environment \<Rightarrow> store_faults \<Rightarrow> string \<Rightarrow> string \<Rightarrow> app_state \<Rightarrow> bool \<times> app_state" where
  "process_csv_to_vector_store env faults csv_path kbid st =
     (if \<not> RAG_AVAILABLE env then (False, st)
      else case read_csv env st csv_path of
             Inl e \<Rightarrow> (False, st)
           | Inr df \<Rightarrow>
               (let documents = csv_documents csv_path kbid (df_columns df) 0 (df_rows df)
                in if documents \<noteq> []
                   then (case process_and_store (new_splitter env) faults
                                DocumentProcessor_default documents (vector_store st) of
                           (Inl e, vs) \<Rightarrow> (False, st\<lparr>vector_store := vs\<rparr>)
                         | (Inr n, vs) \<Rightarrow> (True, st\<lparr>vector_store := vs\<rparr>))
                   else (False, st)))"


subsection \<open>Knowledge bases and documents\<close>

text \<open>\<open>delete_dataset\<close>: 404 for an unknown id; otherwise the ids of the documents of
  the knowledge base are collected, each is deleted from \<open>documents_storage\<close>, then the
  knowledge base is deleted. The vector store is not touched.\<close>

definition docs_to_delete :: "string \<Rightarrow> (string \<times> document_record) list \<Rightarrow> string list" where
  "docs_to_delete dataset_id storage =
     map fst (filter (\<lambda>item. kb_id (snd item) = dataset_id) storage)"

definition delete_dataset :: "string \<Rightarrow> app_state \<Rightarrow> unit response \<times> app_state" where
  "delete_dataset dataset_id st =
     (if dataset_id \<notin> fst ` set (knowledge_bases st) then (Response 404 None, st)
      else (Response 0 None,
            st\<lparr>documents_storage :=
                  fold AList.delete (docs_to_delete dataset_id (documents_storage st))
                       (documents_storage st),
               knowledge_bases := AList.delete dataset_id (knowledge_bases st)\<rparr>))"

text \<open>The counts the status endpoints report from the registries, and the chunk totals
  the registries hold.\<close>

definition total_documents :: "app_state \<Rightarrow> nat" where
  "total_documents st = length (documents_storage st)"

definition total_knowledge_bases :: "app_state \<Rightarrow> nat" where
  "total_knowledge_bases st = length (knowledge_bases st)"

definition total_chunk_count :: "app_state \<Rightarrow> int" where
  "total_chunk_count st = sum_list (map (\<lambda>item. chunk_count (snd item)) (knowledge_bases st))"

definition total_chunk_num :: "app_state \<Rightarrow> int" where
  "total_chunk_num st = sum_list (map (\<lambda>item. chunk_num (snd item)) (documents_storage st))"

text \<open>The document records a knowledge base owns.\<close>

definition owned_documents :: "string \<Rightarrow> app_state \<Rightarrow> (string \<times> document_record) list" where
  "owned_documents dataset_id st =
     filter (\<lambda>item. kb_id (snd item) = dataset_id) (documents_storage st)"

text \<open>\<open>knowledge_bases[k]["document_count"]\<close> and \<open>knowledge_bases[k]["chunk_count"]\<close>,
  when the knowledge base exists.\<close>

definition document_count_of :: "app_state \<Rightarrow> string \<Rightarrow> int option" where
  "document_count_of st k = map_option document_count (map_of (knowledge_bases st) k)"

definition chunk_count_of :: "app_state \<Rightarrow> string \<Rightarrow> int option" where
  "chunk_count_of st k = map_option chunk_count (map_of (knowledge_bases st) k)"

definition allowed_extensions :: "string set" where
  "allowed_extensions = {''.pdf'', ''.docx'', ''.txt'', ''.csv'', ''.xlsx''}"

text \<open>\<open>knowledge_bases[k][field] op= ...\<close> and \<open>documents_storage[k][field] = ...\<close>:
  \<open>None\<close> stands for the \<open>KeyError\<close> of a missing entry.\<close>

definition modify_kb ::
  "string \<Rightarrow> (knowledge_base \<Rightarrow> knowledge_base) \<Rightarrow> app_state \<Rightarrow> app_state option" where
  "modify_kb k f st =
     (case map_of (knowledge_bases st) k of
        None \<Rightarrow> None
      | Some kb \<Rightarrow> Some (st\<lparr>knowledge_bases := AList.update k (f kb) (knowledge_bases st)\<rparr>))"

definition modify_doc ::
  "string \<Rightarrow> (document_record \<Rightarrow> document_record) \<Rightarrow> app_state \<Rightarrow> app_state option" where
  "modify_doc k f st =
     (case map_of (documents_storage st) k of
        None \<Rightarrow> None
      | Some d \<Rightarrow> Some (st\<lparr>documents_storage := AList.update k (f d) (documents_storage st)\<rparr>))"

text \<open>
  \<open>upload_document\<close>. The arguments are the clock, whether saving the file raises, the
  knowledge base id, and the uploaded file's name and bytes. The result is the response,
  the new state and the background job that was scheduled, if any: the arguments
  \<open>(doc_id, file_path, dataset_id)\<close> of \<open>process_uploaded_document\<close>. The job is scheduled,
  not run; the document count is incremented before the handler returns.
\<close>

definition upload_document ::
  "environment \<Rightarrow> time \<Rightarrow> string option \<Rightarrow> string \<Rightarrow> string \<Rightarrow> string \<Rightarrow> app_state
     \<Rightarrow> document_record response \<times> app_state \<times> (string \<times> string \<times> string) option" where
  "upload_document env now io_fault dataset_id filename content st =
     (if dataset_id \<notin> fst ` set (knowledge_bases st) then (Response 404 None, st, None)
      else if path_suffix_lower env filename \<notin> allowed_extensions
      then (Response 400 None, st, None)
      else case io_fault of
             Some msg \<Rightarrow> (Response 500 None, st, None)
           | None \<Rightarrow>
               (let path = ''./data/'' @ filename;
                    st1 = st\<lparr>files := AList.update path content (files st)\<rparr>;
                    did = generate_doc_id env filename;
                    doc_info = \<lparr>doc_id = did, doc_name = filename, kb_id = dataset_id,
                                file_path = Some path,
                                doc_size = show_nat (length content) @ '' bytes'',
                                doc_status = Processing, chunk_num = 0,
                                doc_created_at = now,
                                doc_type = drop 1 (path_suffix_lower env filename)\<rparr>;
                    st2 = st1\<lparr>documents_storage :=
                                AList.update did doc_info (documents_storage st1)\<rparr>;
                    job = (if RAG_AVAILABLE env then Some (did, path, dataset_id) else None)
                in case modify_kb dataset_id
                          (\<lambda>kb. kb\<lparr>document_count := document_count kb + 1\<rparr>) st2 of
                     None \<Rightarrow> (Response 500 None, st2, job)
                   | Some st3 \<Rightarrow> (Response 0 (Some doc_info), st3, job)))"

text \<open>
  The \<open>try\<close> block of \<open>process_uploaded_document\<close>, branch by branch: each gives the
  state when the block is left and the exception that left it, if any. Writes made
  before an exception stay.
\<close>

text \<open>The branch for \<open>.csv\<close>: on success of the ingestion the file is read again and
  its number of rows becomes the record's \<open>chunk_num\<close> and is added to the knowledge
  base's \<open>chunk_count\<close>.\<close>

definition process_uploaded_csv ::
  "environment \<Rightarrow> store_faults \<Rightarrow> string \<Rightarrow> string \<Rightarrow> string \<Rightarrow> app_state
     \<Rightarrow> app_state \<times> py_error option" where
  "process_uploaded_csv env faults did path kbid st =
     (case process_csv_to_vector_store env faults path kbid st of
        (True, st1) \<Rightarrow>
          (case read_csv env st1 path of
             Inl e \<Rightarrow> (st1, Some e)
           | Inr df \<Rightarrow>
               (case modify_doc did
                       (\<lambda>d. d\<lparr>chunk_num := int (length (df_rows df)),
                              doc_status := Completed\<rparr>) st1 of
                  None \<Rightarrow> (st1, Some (KeyError did))
                | Some st2 \<Rightarrow>
                    (case modify_kb kbid
                            (\<lambda>kb. kb\<lparr>chunk_count :=
                                         chunk_count kb + int (length (df_rows df))\<rparr>) st2 of
                       None \<Rightarrow> (st2, Some (KeyError kbid))
                     | Some st3 \<Rightarrow> (st3, None))))
      | (False, st1) \<Rightarrow>
          (case modify_doc did (\<lambda>d. d\<lparr>doc_status := Failed\<rparr>) st1 of
             None \<Rightarrow> (st1, Some (KeyError did))
           | Some st2 \<Rightarrow> (st2, None)))"

text \<open>The branch for \<open>.txt\<close>: the whole text is one document; the chunk number is
  estimated as \<open>len(content) // 500 + 1\<close>.\<close>

definition process_uploaded_txt ::
  "environment \<Rightarrow> store_faults \<Rightarrow> string \<Rightarrow> string \<Rightarrow> string \<Rightarrow> app_state
     \<Rightarrow> app_state \<times> py_error option" where
  "process_uploaded_txt env faults did path kbid st =
     (case map_of (files st) path of
        None \<Rightarrow> (st, Some (ExternalError ''FileNotFoundError''))
      | Some bytes \<Rightarrow>
          (case decode_utf8 env bytes of
             Inl e \<Rightarrow> (st, Some e)
           | Inr content \<Rightarrow>
               (case process_and_store (new_splitter env) faults DocumentProcessor_default
                       [\<lparr>page_content = content,
                         metadata = [(''source'', MStr path), (''kb_id'', MStr kbid),
                                     (''type'', MStr ''text'')]\<rparr>]
                       (vector_store st) of
                  (Inl e, vs) \<Rightarrow> (st\<lparr>vector_store := vs\<rparr>, Some e)
                | (Inr n, vs) \<Rightarrow>
                    (case modify_doc did
                            (\<lambda>d. d\<lparr>chunk_num := int (py_len content div 500 + 1),
                                   doc_status := Completed\<rparr>)
                            (st\<lparr>vector_store := vs\<rparr>) of
                       None \<Rightarrow> (st\<lparr>vector_store := vs\<rparr>, Some (KeyError did))
                     | Some st2 \<Rightarrow>
                         (case modify_kb kbid
                                 (\<lambda>kb. kb\<lparr>chunk_count :=
                                              chunk_count kb
                                              + int (py_len content div 500 + 1)\<rparr>) st2 of
                            None \<Rightarrow> (st2, Some (KeyError kbid))
                          | Some st3 \<Rightarrow> (st3, None))))))"

text \<open>Every other file type is marked completed with one chunk.\<close>

definition process_uploaded_other ::
  "string \<Rightarrow> string \<Rightarrow> app_state \<Rightarrow> app_state \<times> py_error option" where
  "process_uploaded_other did kbid st =
     (case modify_doc did (\<lambda>d. d\<lparr>doc_status := Completed, chunk_num := 1\<rparr>) st of
        None \<Rightarrow> (st, Some (KeyError did))
      | Some st1 \<Rightarrow>
          (case modify_kb kbid (\<lambda>kb. kb\<lparr>chunk_count := chunk_count kb + 1\<rparr>) st1 of
             None \<Rightarrow> (st1, Some (KeyError kbid))
           | Some st2 \<Rightarrow> (st2, None)))"

definition process_uploaded_body ::
  "environment \<Rightarrow> store_faults \<Rightarrow> string \<Rightarrow> string \<Rightarrow> string \<Rightarrow> app_state
     \<Rightarrow> app_state \<times> py_error option" where
  "process_uploaded_body env faults did path kbid st =
     (if path_suffix_lower env path = ''.csv''
      then process_uploaded_csv env faults did path kbid st
      else if path_suffix_lower env path = ''.txt''
      then process_uploaded_txt env faults did path kbid st
      else process_uploaded_other did kbid st)"

text \<open>\<open>process_uploaded_document\<close>: the body, and on any exception the document record,
  if it is still there, is marked failed. Nothing else is undone.\<close>

definition process_uploaded_document ::
  "environment \<Rightarrow> store_faults \<Rightarrow> string \<Rightarrow> string \<Rightarrow> string \<Rightarrow> app_state \<Rightarrow> app_state" where
  "process_uploaded_document env faults did path kbid st =
     (case process_uploaded_body env faults did path kbid st of
        (st', None) \<Rightarrow> st'
      | (st', Some e) \<Rightarrow>
          (case modify_doc did (\<lambda>d. d\<lparr>doc_status := Failed\<rparr>) st' of
             None \<Rightarrow> st'
           | Some st'' \<Rightarrow> st''))"


subsection \<open>Chat tasks\<close>

record chat_message =
  msg_role :: string
  msg_content :: string

definition put_task :: "string \<Rightarrow> chat_task \<Rightarrow> app_state \<Rightarrow> app_state" where
  "put_task task_id t st = st\<lparr>chat_tasks := AList.update task_id t (chat_tasks st)\<rparr>"

text \<open>
  \<open>chat_completions\<close>: \<open>task_id\<close> is the fresh \<open>uuid4\<close>. Without a user message the
  400 raised inside the \<open>try\<close> is caught by \<open>except Exception\<close> and raised again as a
  500. Otherwise the task is stored with status processing and the worker is scheduled
  with \<open>(task_id, user_question, model)\<close>; the handler returns at once.
\<close>

definition chat_completions ::
  "time \<Rightarrow> string \<Rightarrow> chat_message list \<Rightarrow> string \<Rightarrow> app_state
     \<Rightarrow> (py_error + string \<times> status) \<times> app_state \<times> (string \<times> string \<times> string) option" where
  "chat_completions now task_id messages model st =
     (let user_messages = filter (\<lambda>m. msg_role m = ''user'') messages
      in if user_messages = [] then (Inl (HTTPException 500), st, None)
         else (let user_question = msg_content (last user_messages)
               in (Inr (task_id, Processing),
                   put_task task_id
                     \<lparr>task_status = Processing, task_result = None,
                      task_created_at = Some now, task_question = Some user_question,
                      task_message = None, task_error = None,
                      completed_at = None, failed_at = None\<rparr> st,
                   Some (task_id, user_question, model))))"

text \<open>\<open>int(datetime.now().timestamp())\<close>: whole seconds, rounded towards zero.
  The token counts are \<open>len(s.split())\<close> of the question and of the answer.\<close>

definition unix_seconds :: "time \<Rightarrow> int" where
  "unix_seconds now = (if 0 \<le> now then now div 1000000 else - ((- now) div 1000000))"

definition make_completion :: "time \<Rightarrow> string \<Rightarrow> string \<Rightarrow> string \<Rightarrow> string \<Rightarrow> chat_completion" where
  "make_completion now task_id model question answer =
     \<lparr>completion_id = ''chatcmpl-'' @ take 10 task_id,
      created = unix_seconds now,
      completion_model = model,
      completion_content = answer,
      prompt_tokens = length (py_split question),
      completion_tokens = length (py_split answer),
      total_tokens = length (py_split question) + length (py_split answer)\<rparr>"

text \<open>The two dictionary merges \<open>{**task, "status": ..., ...}\<close>.\<close>

definition task_completed :: "task_message \<Rightarrow> chat_completion \<Rightarrow> time \<Rightarrow> chat_task \<Rightarrow> chat_task" where
  "task_completed msg res now t =
     t\<lparr>task_status := Completed, task_message := Some msg, task_result := Some res,
       completed_at := Some now\<rparr>"

definition task_failed :: "task_message \<Rightarrow> string \<Rightarrow> time \<Rightarrow> chat_task \<Rightarrow> chat_task" where
  "task_failed msg err now t =
     t\<lparr>task_status := Failed, task_message := Some msg, task_error := Some err,
       failed_at := Some now\<rparr>"

text \<open>The task built from \<open>{}\<close> when the entry is missing: only the keys of the merge.\<close>

definition blank_task :: chat_task where
  "blank_task = \<lparr>task_status = Failed, task_result = None, task_created_at = None,
                 task_question = None, task_message = None, task_error = None,
                 completed_at = None, failed_at = None\<rparr>"

text \<open>
  The successive values that \<open>process_chat_task\<close> writes to \<open>chat_tasks[task_id]\<close>,
  starting from the entry \<open>t0\<close> it finds: status retrieving, its message; with the RAG
  modules the retrieval, status generating, its message, the generation, and completed;
  an exception of either call gives failed. Without the RAG modules (demo mode) the
  canned answer completes the task right after retrieving.
\<close>

definition chat_task_writes ::
  "environment \<Rightarrow> time \<Rightarrow> string \<Rightarrow> string \<Rightarrow> string \<Rightarrow> chat_task \<Rightarrow> chat_task list" where
  "chat_task_writes env now task_id question model t0 =
     (let t1 = t0\<lparr>task_status := Retrieving\<rparr>;
          t2 = t1\<lparr>task_message := Some MsgRetrieving\<rparr>
      in if RAG_AVAILABLE env then
           (case retriever_invoke env question of
              Inl msg \<Rightarrow> [t1, t2, task_failed (MsgProcessingFailed msg) msg now t2]
            | Inr reviews \<Rightarrow>
                (let t3 = t2\<lparr>task_status := Generating\<rparr>;
                     t4 = t3\<lparr>task_message := Some MsgGenerating\<rparr>
                 in case chain_invoke env reviews question of
                      Inl msg \<Rightarrow>
                        [t1, t2, t3, t4, task_failed (MsgProcessingFailed msg) msg now t4]
                    | Inr answer \<Rightarrow>
                        [t1, t2, t3, t4,
                         task_completed MsgAnswered
                           (make_completion now task_id model question answer) now t4]))
         else [t1, t2,
               task_completed MsgAnsweredDemo
                 (make_completion now task_id model question (mock_answer env question))
                 now t2])"

text \<open>\<open>process_chat_task\<close>: the state after each write. A missing entry raises
  \<open>KeyError\<close> at the first write, and the outermost handler stores a failed task.\<close>

definition process_chat_task ::
  "environment \<Rightarrow> time \<Rightarrow> string \<Rightarrow> string \<Rightarrow> string \<Rightarrow> app_state \<Rightarrow> app_state list" where
  "process_chat_task env now task_id question model st =
     (case map_of (chat_tasks st) task_id of
        None \<Rightarrow>
          [put_task task_id
             (task_failed (MsgSystemError (key_error_str task_id))
                (key_error_str task_id) now blank_task) st]
      | Some t0 \<Rightarrow>
          map (\<lambda>t. put_task task_id t st) (chat_task_writes env now task_id question model t0))"

text \<open>The status of a task in each state of a run, as a poll would see it.\<close>

definition status_history :: "string \<Rightarrow> app_state list \<Rightarrow> status list" where
  "status_history task_id states =
     List.map_filter (\<lambda>st. map_option task_status (map_of (chat_tasks st) task_id)) states"

text \<open>\<open>task_info.get("completed_at") or task_info.get("failed_at")\<close>\<close>

definition finished_at :: "chat_task \<Rightarrow> time option" where
  "finished_at t = (case completed_at t of Some c \<Rightarrow> Some c | None \<Rightarrow> failed_at t)"

text \<open>
  \<open>get_chat_task\<close>: 404 for an unknown id; a completed or failed task whose time stamp
  is more than an hour old is deleted and answered with 404; any other task is returned
  and the state is left as it is.
\<close>

definition get_chat_task :: "time \<Rightarrow> string \<Rightarrow> app_state \<Rightarrow> (py_error + chat_task) \<times> app_state" where
  "get_chat_task now task_id st =
     (case map_of (chat_tasks st) task_id of
        None \<Rightarrow> (Inl (HTTPException 404), st)
      | Some task_info \<Rightarrow>
          (if task_status task_info \<in> set [Completed, Failed]
           then (case finished_at task_info of
                   Some t \<Rightarrow>
                     (if now - t > one_hour
                      then (Inl (HTTPException 404),
                            st\<lparr>chat_tasks := AList.delete task_id (chat_tasks st)\<rparr>)
                      else (Inr task_info, st))
                 | None \<Rightarrow> (Inr task_info, st))
           else (Inr task_info, st)))"

definition NotFound :: py_error where
  "NotFound = HTTPException 404"

subsection \<open>The task state machine as the specification draws it\<close>

text \<open>processing, then retrieving, then generating, then completed; failed from any
  state that is not terminal.\<close>

definition spec_transition :: "status \<Rightarrow> status \<Rightarrow> bool" where
  "spec_transition a b =
     ((a, b) \<in> set [(Processing, Retrieving), (Retrieving, Generating),
                     (Generating, Completed), (Processing, Failed),
                     (Retrieving, Failed), (Generating, Failed)])"

fun spec_path :: "status list \<Rightarrow> bool" where
  "spec_path (a # b # rest) = (spec_transition a b \<and> spec_path (b # rest))"
| "spec_path xs = True"

definition terminal :: "status \<Rightarrow> bool" where
  "terminal s = (s = Completed \<or> s = Failed)"


subsection \<open>Example values\<close>

text \<open>The registries as the module creates them, and an empty store and data directory.\<close>

definition empty_state :: app_state where
  "empty_state = \<lparr>knowledge_bases = [], documents_storage = [], chat_tasks = [],
                   vector_store = [], files = []\<rparr>"

text \<open>A splitter constructor for the examples: it rejects a chunk overlap larger than the
  chunk size, and its splitter returns a non-empty text as one piece.\<close>

definition example_splitter :: splitter_ctor where
  "example_splitter csize coverlap seps =
     (if coverlap > csize then Inl (ExternalError ''ValueError'')
      else Inr (\<lambda>t. if t = [] then [] else [t]))"

text \<open>A CSV file of three rows whose second row has no value at all, and its data
  frame.\<close>

definition example_csv :: string where
  "example_csv = ''Title,desc'' @ [CHR 0x0A] @ ''Oil,change'' @ [CHR 0x0A] @ '','' @ [CHR 0x0A]
                 @ ''Tyre,rotate'' @ [CHR 0x0A]"

definition example_dataframe :: dataframe where
  "example_dataframe =
     \<lparr>df_columns = [''Title'', ''desc''],
      df_rows = [[Some ''Oil'', Some ''change''], [None, None], [Some ''Tyre'', Some ''rotate'']]\<rparr>"

text \<open>A data frame with a third column, whose second row has neither title nor
  description but has a rating.\<close>

definition example_rated_dataframe :: dataframe where
  "example_rated_dataframe =
     \<lparr>df_columns = [''Title'', ''desc'', ''Rating''],
      df_rows = [[Some ''Oil'', Some ''change'', Some ''5''], [None, None, Some ''4''],
                 [Some ''Tyre'', Some ''rotate'', Some ''3'']]\<rparr>"

text \<open>An environment for the examples, with the RAG modules imported: stand-ins for the
  collaborators (the digest is a fixed string, the suffix is the last four characters,
  the parser knows the one example file).\<close>

definition example_env :: environment where
  "example_env =
     \<lparr>RAG_AVAILABLE = True,
      new_splitter = example_splitter,
      retriever_invoke = (\<lambda>q. Inr []),
      chain_invoke = (\<lambda>reviews q. Inr ''five years''),
      md5_hexdigest = (\<lambda>s. ''00000000000000000000000000000000''),
      path_suffix_lower = (\<lambda>p. drop (length p - 4) p),
      parse_csv = (\<lambda>bytes. if bytes = example_csv then Inr example_dataframe
                              else Inl (ExternalError ''ParserError'')),
      decode_utf8 = (\<lambda>bytes. Inr bytes),
      mock_answer = (\<lambda>q. ''demo answer'')\<rparr>"

text \<open>The same environment when the import of the RAG modules failed (demo mode).\<close>

definition demo_env :: environment where
  "demo_env = example_env\<lparr>RAG_AVAILABLE := False\<rparr>"

definition example_kb :: "string \<Rightarrow> knowledge_base" where
  "example_kb k =
     \<lparr>kb_ident = k, kb_name = ''manuals'', kb_description = ''none'',
      kb_chunk_method = ''naive'', kb_chunk_size = 512, kb_chunk_overlap = 50,
      document_count = 0, chunk_count = 0, kb_status = Active, kb_created_at = 0\<rparr>"

definition example_doc :: "string \<Rightarrow> string \<Rightarrow> int \<Rightarrow> document_record" where
  "example_doc did kbid n =
     \<lparr>doc_id = did, doc_name = did @ ''.txt'', kb_id = kbid,
      file_path = Some (''./data/'' @ did @ ''.txt''), doc_size = ''10 bytes'',
      doc_status = Completed, chunk_num = n, doc_created_at = 0, doc_type = ''txt''\<rparr>"

text \<open>Two knowledge bases, the first owning two of three document records, and one
  entry in the vector store.\<close>

definition example_registry :: app_state where
  "example_registry =
     \<lparr>knowledge_bases =
        [(''kb_1'', (example_kb ''kb_1'')\<lparr>document_count := 2, chunk_count := 5\<rparr>),
         (''kb_2'', (example_kb ''kb_2'')\<lparr>document_count := 1, chunk_count := 4\<rparr>)],
      documents_storage =
        [(''d1'', example_doc ''d1'' ''kb_1'' 2), (''d2'', example_doc ''d2'' ''kb_2'' 4),
         (''d3'', example_doc ''d3'' ''kb_1'' 3)],
      chat_tasks = [],
      vector_store = [(''d1_0'', \<lparr>page_content = ''text'', metadata = []\<rparr>)],
      files = []\<rparr>"

text \<open>Two empty knowledge bases and nothing else.\<close>

definition example_upload_state :: app_state where
  "example_upload_state =
     empty_state\<lparr>knowledge_bases := [(''kb_1'', example_kb ''kb_1''),
                                      (''kb_2'', example_kb ''kb_2'')]\<rparr>"


section \<open>Properties of the chunker\<close>

lemma show_nat_digit: "n < 10 \<Longrightarrow> show_nat n = [digit_char n]"
  by (simp add: show_nat.simps)

lemma show_nat_0: "show_nat 0 = ''0''"
  by (simp add: show_nat_digit digit_char_def)

lemma show_nat_1: "show_nat 1 = ''1''"
  by (simp add: show_nat_digit digit_char_def)

lemma show_int_of_nat: "show_int (int i) = show_nat i"
  by (simp add: show_int_def)

lemma well_labelled_annotate_chunk: "well_labelled (annotate_chunk oid i c)"
  by (simp add: well_labelled_def annotate_chunk_def update_conv' show_int_of_nat)

lemma chunk_id_annotate_chunk:
  "map_of (metadata (annotate_chunk oid i c)) ''chunk_id''
     = Some (MStr (py_str oid @ ''_'' @ show_nat i))"
  by (simp add: annotate_chunk_def update_conv')

lemma page_content_annotate_chunk: "page_content (annotate_chunk oid i c) = page_content c"
  by (simp add: annotate_chunk_def)

lemma well_labelled_annotate_chunks: "list_all well_labelled (annotate_chunks oid i cs)"
  by (induction cs arbitrary: i) (simp_all add: well_labelled_annotate_chunk)

lemma length_annotate_chunks: "length (annotate_chunks oid i cs) = length cs"
  by (induction cs arbitrary: i) simp_all

lemma page_content_annotate_chunks:
  "map page_content (annotate_chunks oid i cs) = map page_content cs"
  by (induction cs arbitrary: i) (simp_all add: page_content_annotate_chunk)

lemma chunk_id_list_annotate_chunks:
  "chunk_id_list (annotate_chunks oid i cs)
     = Inr (map (\<lambda>j. py_str oid @ ''_'' @ show_nat j) [i..<i + length cs])"
proof (induction cs arbitrary: i)
  case Nil
  show ?case by simp
next
  case (Cons c cs)
  have "[i..<Suc (i + length cs)] = i # [Suc i..<Suc (i + length cs)]"
    by (rule upt_conv_Cons) simp
  then have "[i..<i + length (c # cs)] = i # [Suc i..<Suc i + length cs]"
    by simp
  then show ?case by (simp only: annotate_chunks.simps chunk_id_list.simps
      chunk_id_annotate_chunk Cons.IH option.case sum.case list.map meta_value.case py_str.simps)
qed

lemma chunk_id_list_append:
  "chunk_id_list xs = Inr a \<Longrightarrow> chunk_id_list ys = Inr b \<Longrightarrow>
   chunk_id_list (xs @ ys) = Inr (a @ b)"
  by (induction xs arbitrary: a) (auto split: option.splits sum.splits)

lemma length_split_documents: "length (split_documents sp doc) = length (sp (page_content doc))"
  by (simp add: split_documents_def)

lemma page_content_split_documents:
  "map page_content (split_documents sp doc) = sp (page_content doc)"
  by (simp add: split_documents_def comp_def)

lemma well_labelled_chunk_loop:
  "list_all well_labelled acc \<Longrightarrow> list_all well_labelled (chunk_loop sp docs acc)"
  by (induction docs arbitrary: acc) (simp_all add: well_labelled_annotate_chunks)

lemma chunk_id_list_chunk_loop:
  "chunk_id_list acc = Inr ids \<Longrightarrow>
   chunk_id_list (chunk_loop sp docs acc) = Inr (ids @ expected_chunk_ids sp (length acc) docs)"
proof (induction docs arbitrary: acc ids)
  case Nil
  then show ?case by simp
next
  case (Cons doc docs)
  let ?new = "annotate_chunks (original_id_of doc (length acc)) 0 (split_documents sp doc)"
  have "chunk_id_list (acc @ ?new)
      = Inr (ids @ map (\<lambda>j. py_str (original_id_of doc (length acc)) @ ''_'' @ show_nat j)
                      [0..<length (sp (page_content doc))])"
    using Cons.prems
    by (simp add: chunk_id_list_append chunk_id_list_annotate_chunks length_split_documents)
  from Cons.IH [OF this] show ?case
    by (simp add: length_annotate_chunks length_split_documents)
qed

lemma page_content_chunk_loop:
  "map page_content (chunk_loop sp docs acc)
     = map page_content acc @ concat (map (\<lambda>d. sp (page_content d)) docs)"
  by (induction docs arbitrary: acc)
     (simp_all add: page_content_annotate_chunks page_content_split_documents)

lemma chunk_documents_example:
  "chunk_documents example_splitter DocumentProcessor_default
     [\<lparr>page_content = ''abc'', metadata = [(''id'', MInt 7)]\<rparr>,
      \<lparr>page_content = ''xyz'', metadata = []\<rparr>]
   = Inr [\<lparr>page_content = ''abc'',
            metadata = [(''id'', MInt 7), (''chunk_id'', MStr ''7_0''),
                        (''chunk_index'', MInt 0), (''original_id'', MInt 7)]\<rparr>,
          \<lparr>page_content = ''xyz'',
            metadata = [(''chunk_id'', MStr ''doc_1_0''), (''chunk_index'', MInt 0),
                        (''original_id'', MStr ''doc_1'')]\<rparr>]"
  by (simp add: chunk_documents_def example_splitter_def DocumentProcessor_default_def
      DocumentProcessor_init_def split_documents_def original_id_of_def annotate_chunk_def
      show_int_def show_nat_0 show_nat_1 show_nat_digit digit_char_def)

text \<open>
  C7. The chunker is deterministic: two processors with the same chunk size and chunk
  overlap, run on the same documents, return the same ordered chunk list. Every chunk
  carries the chunk id \<open>{original_id}_{chunk_index}\<close>; the ids, in order, are those the
  format prescribes, and the contents are the splitter's pieces in order.
\<close>

theorem chunk_documents_deterministic:
  assumes size: "chunk_size self' = chunk_size self"
    and overlap: "chunk_overlap self' = chunk_overlap self"
    and ctor: "splitter_new (chunk_size self) (chunk_overlap self) separators = Inr sp"
  shows "\<exists>chunks.
           chunk_documents splitter_new self documents = Inr chunks \<and>
           chunk_documents splitter_new self' documents = Inr chunks \<and>
           list_all well_labelled chunks \<and>
           chunk_id_list chunks = Inr (expected_chunk_ids sp 0 documents) \<and>
           map page_content chunks = concat (map (\<lambda>d. sp (page_content d)) documents)"
proof -
  let ?chunks = "chunk_loop sp documents []"
  have a: "chunk_documents splitter_new self documents = Inr ?chunks"
    by (simp add: chunk_documents_def ctor)
  have b: "chunk_documents splitter_new self' documents = Inr ?chunks"
    by (simp add: chunk_documents_def ctor size overlap)
  have c: "list_all well_labelled ?chunks"
    by (rule well_labelled_chunk_loop) simp
  have d: "chunk_id_list ?chunks = Inr (expected_chunk_ids sp 0 documents)"
    using chunk_id_list_chunk_loop [of "[]" "[]" sp documents] by simp
  have e: "map page_content ?chunks = concat (map (\<lambda>d. sp (page_content d)) documents)"
    by (simp add: page_content_chunk_loop)
  from a b c d e show ?thesis by blast
qed

theorem chunk_documents_deterministic_witness:
  "chunk_size DocumentProcessor_default = chunk_size (DocumentProcessor_init 500 50) \<and>
   example_splitter 500 50 separators = Inr (\<lambda>t. if t = [] then [] else [t]) \<and>
   (\<exists>chunks.
      chunk_documents example_splitter (DocumentProcessor_init 500 50)
        [\<lparr>page_content = ''abc'', metadata = [(''id'', MInt 7)]\<rparr>] = Inr chunks \<and>
      chunk_documents example_splitter DocumentProcessor_default
        [\<lparr>page_content = ''abc'', metadata = [(''id'', MInt 7)]\<rparr>] = Inr chunks \<and>
      chunk_id_list chunks = Inr [''7_0''])"
proof -
  have ctor: "example_splitter (chunk_size (DocumentProcessor_init 500 50))
                (chunk_overlap (DocumentProcessor_init 500 50)) separators
              = Inr (\<lambda>t. if t = [] then [] else [t])"
    by (simp add: example_splitter_def DocumentProcessor_init_def)
  have size: "chunk_size DocumentProcessor_default = chunk_size (DocumentProcessor_init 500 50)"
    by (simp add: DocumentProcessor_default_def)
  have overlap:
    "chunk_overlap DocumentProcessor_default = chunk_overlap (DocumentProcessor_init 500 50)"
    by (simp add: DocumentProcessor_default_def)
  note inst = chunk_documents_deterministic
      [where self' = DocumentProcessor_default and self = "DocumentProcessor_init 500 50"
         and splitter_new = example_splitter and sp = "\<lambda>t. if t = [] then [] else [t]"
         and documents = "[\<lparr>page_content = ''abc'', metadata = [(''id'', MInt 7)]\<rparr>]"]
  from inst [OF size overlap ctor]
  obtain chunks where
    "chunk_documents example_splitter (DocumentProcessor_init 500 50)
       [\<lparr>page_content = ''abc'', metadata = [(''id'', MInt 7)]\<rparr>] = Inr chunks"
    "chunk_documents example_splitter DocumentProcessor_default
       [\<lparr>page_content = ''abc'', metadata = [(''id'', MInt 7)]\<rparr>] = Inr chunks"
    "chunk_id_list chunks
       = Inr (expected_chunk_ids (\<lambda>t. if t = [] then [] else [t]) 0
               [\<lparr>page_content = ''abc'', metadata = [(''id'', MInt 7)]\<rparr>])"
    by blast
  moreover have "expected_chunk_ids (\<lambda>t. if t = [] then [] else [t]) 0
                   [\<lparr>page_content = ''abc'', metadata = [(''id'', MInt 7)]\<rparr>] = [''7_0'']"
    by (simp add: original_id_of_def show_int_def show_nat_0 show_nat_digit digit_char_def)
  ultimately show ?thesis
    using size ctor by (auto simp: DocumentProcessor_init_def)
qed

text \<open>
  C4, as the code has it. The processor's constructor stores whatever chunk size and
  chunk overlap it is given and checks nothing; \<open>chunk_documents\<close> fails exactly when
  the external splitter's constructor rejects the two parameters, and with that
  exception. No configuration error of the code's own exists.
\<close>

theorem chunk_documents_fails_only_in_splitter:
  "chunk_size (DocumentProcessor_init csize coverlap) = csize \<and>
   chunk_overlap (DocumentProcessor_init csize coverlap) = coverlap \<and>
   (chunk_documents splitter_new (DocumentProcessor_init csize coverlap) documents = Inl e
      \<longleftrightarrow> splitter_new csize coverlap separators = Inl e)"
  by (simp add: chunk_documents_def DocumentProcessor_init_def split: sum.splits)

text \<open>
  C4 as stated fails: a processor built with \<open>chunk_overlap = chunk_size = 5\<close> is
  constructed without error and chunks an empty document list without error, with a
  splitter that rejects only an overlap larger than the size.
\<close>

theorem chunk_documents_equal_overlap_counterexample:
  "chunk_overlap (DocumentProcessor_init 5 5) \<ge> chunk_size (DocumentProcessor_init 5 5) \<and>
   chunk_documents example_splitter (DocumentProcessor_init 5 5) [] = Inr []"
  by (simp add: chunk_documents_def DocumentProcessor_init_def example_splitter_def)

section \<open>Properties of the ingestion commit\<close>

lemma map_of_upsert_all: "map_of (upsert_all es s) = map_of s ++ map_of (rev es)"
proof (induction es arbitrary: s)
  case Nil
  show ?case by (simp add: upsert_all_def)
next
  case (Cons e es)
  have "upsert_all (e # es) s = upsert_all es (AList.update (fst e) (snd e) s)"
    by (simp add: upsert_all_def)
  then have "map_of (upsert_all (e # es) s)
      = map_of (AList.update (fst e) (snd e) s) ++ map_of (rev es)"
    by (simp add: Cons.IH)
  also have "map_of (AList.update (fst e) (snd e) s) = (map_of s)(fst e \<mapsto> snd e)"
    by (rule update_conv')
  also have "(map_of s)(fst e \<mapsto> snd e) ++ map_of (rev es) = map_of s ++ map_of (rev (e # es))"
    by (cases e) (simp add: fun_eq_iff map_add_def split: option.splits)
  finally show ?case .
qed

lemma distinct_upsert_all: "distinct (map fst s) \<Longrightarrow> distinct (map fst (upsert_all es s))"
  by (induction es arbitrary: s) (simp_all add: upsert_all_def distinct_update)

lemma map_of_filter_notin:
  "map_of (filter (\<lambda>entry. fst entry \<notin> A) s) = map_of s |` (- A)"
  by (induction s) (auto simp: restrict_map_def fun_eq_iff)

lemma distinct_filter_keys: "distinct (map fst s) \<Longrightarrow> distinct (map fst (filter P s))"
  by (simp add: distinct_map_filter)

lemma length_distinct_keys: "distinct (map fst s) \<Longrightarrow> length s = card (dom (map_of s))"
proof -
  assume d: "distinct (map fst s)"
  have "card (dom (map_of s)) = card (set (map fst s))"
    by (simp add: dom_map_of_conv_image_fst)
  also have "\<dots> = length (map fst s)" using d by (rule distinct_card)
  finally show ?thesis by simp
qed

lemma filter_upsert_all:
  "fst ` set es \<subseteq> A \<Longrightarrow>
   filter (\<lambda>entry. fst entry \<notin> A) (upsert_all es s) = filter (\<lambda>entry. fst entry \<notin> A) s"
proof (induction es arbitrary: s)
  case Nil
  show ?case by (simp add: upsert_all_def)
next
  case (Cons e es)
  have one: "filter (\<lambda>entry. fst entry \<notin> A) (AList.update (fst e) (snd e) s)
      = filter (\<lambda>entry. fst entry \<notin> A) s" using Cons.prems
    by (induction s) auto
  have "upsert_all (e # es) s = upsert_all es (AList.update (fst e) (snd e) s)"
    by (simp add: upsert_all_def)
  with Cons one show ?case by simp
qed

lemma chunk_id_list_length: "chunk_id_list ds = Inr ids \<Longrightarrow> length ids = length ds"
  by (induction ds arbitrary: ids) (auto split: option.splits sum.splits)


lemma process_and_store_Inr:
  assumes "process_and_store splitter_new faults self documents vs = (Inr n, vs')"
  shows "\<exists>chunks ids.
           chunk_documents splitter_new self documents = Inr chunks \<and>
           chunk_id_list chunks = Inr ids \<and> n = length chunks \<and>
           add_fault faults = None \<and>
           vs' = upsert_all (zip ids chunks)
                   (if delete_fault faults = None
                    then filter (\<lambda>entry. fst entry \<notin> set ids) vs else vs)"
  using assms
  by (auto simp: process_and_store_def vs_delete_def vs_add_documents_def Let_def
           split: sum.splits option.splits)

lemma dom_map_of_rev_zip:
  "length ids = length ds \<Longrightarrow> dom (map_of (rev (zip ids ds))) = set ids"
proof -
  assume len: "length ids = length ds"
  have "fst ` set (zip ids ds) = set (map fst (zip ids ds))" by simp
  also have "\<dots> = set ids" using len by (simp only: map_fst_zip)
  finally show ?thesis by (simp add: dom_map_of_conv_image_fst)
qed

lemma map_add_restrict_absorb:
  "dom E = A \<Longrightarrow> (M |` (- A)) ++ E = M ++ E"
  by (auto simp: fun_eq_iff map_add_def restrict_map_def split: option.splits)

lemma map_add_twice: "(M ++ E) ++ E = M ++ (E :: 'a \<rightharpoonup> 'b)"
  by (simp add: fun_eq_iff map_add_def split: option.splits)

lemma map_of_commit:
  assumes "length ids = length ds"
  shows "map_of (upsert_all (zip ids ds)
            (if b then filter (\<lambda>entry. fst entry \<notin> set ids) vs else vs))
         = map_of vs ++ map_of (rev (zip ids ds))"
  using dom_map_of_rev_zip [OF assms]
  by (simp add: map_of_upsert_all map_of_filter_notin map_add_restrict_absorb)

lemma distinct_commit:
  "distinct (map fst vs) \<Longrightarrow>
   distinct (map fst (upsert_all es (if b then filter P vs else vs)))"
  by (simp add: distinct_upsert_all distinct_filter_keys)

lemma update_append_fresh:
  "k \<notin> fst ` set s \<Longrightarrow> AList.update k v (s @ t) = s @ AList.update k v t"
  by (induction s) auto

lemma upsert_all_append:
  "fst ` set es \<inter> fst ` set s = {} \<Longrightarrow> upsert_all es (s @ t) = s @ upsert_all es t"
proof (induction es arbitrary: t)
  case Nil
  show ?case by (simp add: upsert_all_def)
next
  case (Cons e es)
  from Cons.prems have fresh: "fst e \<notin> fst ` set s" and rest: "fst ` set es \<inter> fst ` set s = {}"
    by auto
  have "upsert_all (e # es) (s @ t) = upsert_all es (AList.update (fst e) (snd e) (s @ t))"
    by (simp add: upsert_all_def)
  also have "\<dots> = upsert_all es (s @ AList.update (fst e) (snd e) t)"
    by (simp add: update_append_fresh [OF fresh])
  also have "\<dots> = s @ upsert_all es (AList.update (fst e) (snd e) t)"
    by (rule Cons.IH [OF rest])
  also have "\<dots> = s @ upsert_all (e # es) t"
    by (simp add: upsert_all_def)
  finally show ?case .
qed

lemma commit_after_delete:
  "upsert_all (zip ids ds) (filter (\<lambda>entry. fst entry \<notin> set ids) vs)
     = filter (\<lambda>entry. fst entry \<notin> set ids) vs @ upsert_all (zip ids ds) []"
proof -
  have "fst ` set (zip ids ds) \<inter> fst ` set (filter (\<lambda>entry. fst entry \<notin> set ids) vs) = {}"
    by (auto dest: set_zip_leftD)
  from upsert_all_append [OF this, of "[]"] show ?thesis by simp
qed

lemma filter_commit:
  "filter (\<lambda>entry. fst entry \<notin> set ids)
     (upsert_all (zip ids ds) (if b then filter (\<lambda>entry. fst entry \<notin> set ids) vs else vs))
   = filter (\<lambda>entry. fst entry \<notin> set ids) vs"
proof -
  have sub: "fst ` set (zip ids ds) \<subseteq> set ids"
    by (auto dest: set_zip_leftD)
  show ?thesis by (simp add: filter_upsert_all [OF sub])
qed

text \<open>
  C1. A commit by \<open>process_and_store\<close> that succeeds deletes the newly computed chunk ids
  and then inserts: when its delete ran, the index afterwards is the old index without
  the entries under the new ids, followed by the new entries; when the delete raised, the
  new entries replace those under the same ids. In both cases the ids of the index are
  the old ids and the new ones, every entry under another id is kept as it was and in
  its place, and under each new id lies a chunk of this commit. Ingesting the same
  documents a second time, both commits succeeding, therefore leaves the vector index
  with the same set of entry ids, the same number of entries and the same entry under
  every id as after the first ingestion, and reports the same number of chunks. Both
  commits compute the same chunk ids. When both deletes ran, the index is the same list
  of entries. The index is a dictionary: its ids are distinct.
\<close>

theorem process_and_store_idempotent:
  assumes d: "distinct (map fst vs)"
    and r1: "process_and_store splitter_new f1 self documents vs = (Inr n1, vs1)"
    and r2: "process_and_store splitter_new f2 self documents vs1 = (Inr n2, vs2)"
  shows "n2 = n1 \<and> vs_ids vs2 = vs_ids vs1 \<and> vs_count vs2 = vs_count vs1 \<and>
         map_of vs2 = map_of vs1 \<and>
         (\<exists>chunks ids.
            chunk_documents splitter_new self documents = Inr chunks \<and>
            chunk_id_list chunks = Inr ids \<and> set ids \<subseteq> vs_ids vs1 \<and>
            n1 = length chunks \<and>
            vs1 = upsert_all (zip ids chunks)
                    (if delete_fault f1 = None
                     then filter (\<lambda>entry. fst entry \<notin> set ids) vs else vs) \<and>
            vs2 = upsert_all (zip ids chunks)
                    (if delete_fault f2 = None
                     then filter (\<lambda>entry. fst entry \<notin> set ids) vs1 else vs1) \<and>
            (delete_fault f1 = None \<longrightarrow>
               vs1 = filter (\<lambda>entry. fst entry \<notin> set ids) vs @ upsert_all (zip ids chunks) []) \<and>
            vs_ids vs1 = vs_ids vs \<union> set ids \<and>
            filter (\<lambda>entry. fst entry \<notin> set ids) vs1
              = filter (\<lambda>entry. fst entry \<notin> set ids) vs \<and>
            (\<forall>k. k \<notin> set ids \<longrightarrow> map_of vs1 k = map_of vs k) \<and>
            (\<forall>k. k \<in> set ids \<longrightarrow> map_of vs1 k = map_of (rev (zip ids chunks)) k \<and>
                                      (\<exists>c. map_of vs1 k = Some c \<and> c \<in> set chunks))) \<and>
         (delete_fault f1 = None \<and> delete_fault f2 = None \<longrightarrow> vs2 = vs1)"
proof -
  from process_and_store_Inr [OF r1] obtain chunks ids where
    c: "chunk_documents splitter_new self documents = Inr chunks" and
    i: "chunk_id_list chunks = Inr ids" and n1: "n1 = length chunks" and
    v1: "vs1 = upsert_all (zip ids chunks)
                 (if delete_fault f1 = None
                  then filter (\<lambda>entry. fst entry \<notin> set ids) vs else vs)"
    by blast
  from process_and_store_Inr [OF r2] c i have n2: "n2 = length chunks" and
    v2: "vs2 = upsert_all (zip ids chunks)
                 (if delete_fault f2 = None
                  then filter (\<lambda>entry. fst entry \<notin> set ids) vs1 else vs1)"
    by auto
  have len: "length ids = length chunks" using i by (rule chunk_id_list_length)
  let ?E = "map_of (rev (zip ids chunks))"
  have domE: "dom ?E = set ids" using len by (rule dom_map_of_rev_zip)
  have m1: "map_of vs1 = map_of vs ++ ?E"
    unfolding v1 using len by (rule map_of_commit)
  have "map_of vs2 = map_of vs1 ++ ?E"
    unfolding v2 using len by (rule map_of_commit)
  then have m2: "map_of vs2 = map_of vs1" by (simp add: m1 map_add_twice)
  have d1: "distinct (map fst vs1)" unfolding v1 using d by (rule distinct_commit)
  have d2: "distinct (map fst vs2)" unfolding v2 using d1 by (rule distinct_commit)
  have cnt: "vs_count vs2 = vs_count vs1"
    by (simp add: vs_count_def length_distinct_keys d1 d2 m2)
  have "dom (map_of vs2) = dom (map_of vs1)" by (simp add: m2)
  then have idset: "vs_ids vs2 = vs_ids vs1"
    by (simp add: vs_ids_def dom_map_of_conv_image_fst)
  have same: "vs2 = vs1" if "delete_fault f1 = None" and "delete_fault f2 = None"
  proof -
    have sub: "fst ` set (zip ids chunks) \<subseteq> set ids"
      by (auto dest: set_zip_leftD)
    from that show ?thesis
      by (simp add: v1 v2 filter_upsert_all [OF sub])
  qed
  have "dom (map_of vs1) = dom (map_of vs) \<union> set ids"
    by (simp add: m1 domE Un_commute)
  then have ids1: "vs_ids vs1 = vs_ids vs \<union> set ids"
    by (simp add: vs_ids_def dom_map_of_conv_image_fst)
  then have sub1: "set ids \<subseteq> vs_ids vs1" by simp
  have appended: "vs1 = filter (\<lambda>entry. fst entry \<notin> set ids) vs @ upsert_all (zip ids chunks) []"
    if "delete_fault f1 = None"
    using that by (simp add: v1 commit_after_delete)
  have kept: "filter (\<lambda>entry. fst entry \<notin> set ids) vs1
                = filter (\<lambda>entry. fst entry \<notin> set ids) vs"
    unfolding v1 by (rule filter_commit)
  have other: "map_of vs1 k = map_of vs k" if "k \<notin> set ids" for k
  proof -
    from that domE have "?E k = None" by blast
    then show ?thesis by (simp add: m1 map_add_def)
  qed
  have new: "map_of vs1 k = ?E k \<and> (\<exists>c. map_of vs1 k = Some c \<and> c \<in> set chunks)"
    if "k \<in> set ids" for k
  proof -
    from that domE obtain c where e: "?E k = Some c" by blast
    then have "(k, c) \<in> set (rev (zip ids chunks))" by (rule map_of_SomeD)
    then have "c \<in> set chunks" by (auto dest: set_zip_rightD)
    with e show ?thesis by (simp add: m1 map_add_def)
  qed
  from c i sub1 n1 v1 v2 appended ids1 kept other new
  have ex: "\<exists>chunks ids.
            chunk_documents splitter_new self documents = Inr chunks \<and>
            chunk_id_list chunks = Inr ids \<and> set ids \<subseteq> vs_ids vs1 \<and>
            n1 = length chunks \<and>
            vs1 = upsert_all (zip ids chunks)
                    (if delete_fault f1 = None
                     then filter (\<lambda>entry. fst entry \<notin> set ids) vs else vs) \<and>
            vs2 = upsert_all (zip ids chunks)
                    (if delete_fault f2 = None
                     then filter (\<lambda>entry. fst entry \<notin> set ids) vs1 else vs1) \<and>
            (delete_fault f1 = None \<longrightarrow>
               vs1 = filter (\<lambda>entry. fst entry \<notin> set ids) vs @ upsert_all (zip ids chunks) []) \<and>
            vs_ids vs1 = vs_ids vs \<union> set ids \<and>
            filter (\<lambda>entry. fst entry \<notin> set ids) vs1
              = filter (\<lambda>entry. fst entry \<notin> set ids) vs \<and>
            (\<forall>k. k \<notin> set ids \<longrightarrow> map_of vs1 k = map_of vs k) \<and>
            (\<forall>k. k \<in> set ids \<longrightarrow> map_of vs1 k = map_of (rev (zip ids chunks)) k \<and>
                                      (\<exists>c. map_of vs1 k = Some c \<and> c \<in> set chunks))"
    by (intro exI [of _ chunks] exI [of _ ids] conjI allI impI) blast+
  from n1 n2 idset cnt m2 ex same show ?thesis by blast
qed

theorem process_and_store_idempotent_witness:
  "distinct (map fst [(''doc_1_0'', \<lparr>page_content = ''old'', metadata = []\<rparr>)]) \<and>
   (let docs = [\<lparr>page_content = ''abc'', metadata = [(''id'', MInt 7)]\<rparr>,
                \<lparr>page_content = ''xyz'', metadata = []\<rparr>];
        r1 = process_and_store example_splitter
               \<lparr>delete_fault = Some ''unavailable'', add_fault = None\<rparr>
               DocumentProcessor_default docs
               [(''doc_1_0'', \<lparr>page_content = ''old'', metadata = []\<rparr>)];
        r2 = process_and_store example_splitter no_faults DocumentProcessor_default docs (snd r1)
    in fst r1 = Inr 2 \<and> fst r2 = Inr 2 \<and> vs_count (snd r1) = 2 \<and>
       vs_count (snd r2) = vs_count (snd r1) \<and> vs_ids (snd r2) = vs_ids (snd r1)) \<and>
   (let docs = [\<lparr>page_content = ''abc'', metadata = [(''id'', MInt 7)]\<rparr>,
                \<lparr>page_content = ''xyz'', metadata = []\<rparr>];
        vs = [(''doc_1_0'', \<lparr>page_content = ''old'', metadata = []\<rparr>),
              (''other_0'', \<lparr>page_content = ''keep'', metadata = []\<rparr>)];
        r1 = process_and_store example_splitter no_faults DocumentProcessor_default docs vs;
        r2 = process_and_store example_splitter no_faults DocumentProcessor_default docs (snd r1)
    in fst r1 = Inr 2 \<and> fst r2 = Inr 2 \<and>
       map fst (snd r1) = [''other_0'', ''7_0'', ''doc_1_0''] \<and>
       map_of (snd r1) ''other_0'' = Some \<lparr>page_content = ''keep'', metadata = []\<rparr> \<and>
       map_option page_content (map_of (snd r1) ''doc_1_0'') = Some ''xyz'' \<and>
       snd r2 = snd r1)"
proof -
  let ?docs = "[\<lparr>page_content = ''abc'', metadata = [(''id'', MInt 7)]\<rparr>,
                \<lparr>page_content = ''xyz'', metadata = []\<rparr>]"
  let ?vs = "[(''doc_1_0'', \<lparr>page_content = ''old'', metadata = []\<rparr>)]"
  let ?r1 = "process_and_store example_splitter
               \<lparr>delete_fault = Some ''unavailable'', add_fault = None\<rparr>
               DocumentProcessor_default ?docs ?vs"
  let ?r2 = "process_and_store example_splitter no_faults DocumentProcessor_default ?docs (snd ?r1)"
  have d: "distinct (map fst ?vs)" by simp
  have f1: "fst ?r1 = Inr 2"
    by (simp add: process_and_store_def chunk_documents_example vs_delete_def
        vs_add_documents_def)
  have c1: "vs_count (snd ?r1) = 2"
    by (simp add: process_and_store_def chunk_documents_example vs_delete_def
        vs_add_documents_def upsert_all_def vs_count_def)
  have f2: "fst ?r2 = Inr 2"
    by (simp add: process_and_store_def chunk_documents_example vs_delete_def
        vs_add_documents_def no_faults_def)
  have r1: "?r1 = (Inr 2, snd ?r1)" using f1 by (metis prod.collapse)
  have r2: "?r2 = (Inr 2, snd ?r2)" using f2 by (metis prod.collapse)
  from process_and_store_idempotent [OF d r1 r2] f1 f2 c1 d
  have first: "distinct (map fst ?vs) \<and> fst ?r1 = Inr 2 \<and> fst ?r2 = Inr 2 \<and>
               vs_count (snd ?r1) = 2 \<and> vs_count (snd ?r2) = vs_count (snd ?r1) \<and>
               vs_ids (snd ?r2) = vs_ids (snd ?r1)"
    by simp
  let ?ws = "[(''doc_1_0'', \<lparr>page_content = ''old'', metadata = []\<rparr>),
              (''other_0'', \<lparr>page_content = ''keep'', metadata = []\<rparr>)]"
  let ?q1 = "process_and_store example_splitter no_faults DocumentProcessor_default ?docs ?ws"
  let ?q2 = "process_and_store example_splitter no_faults DocumentProcessor_default ?docs (snd ?q1)"
  have e: "distinct (map fst ?ws)" by simp
  have g1: "fst ?q1 = Inr 2" by code_simp
  have g2: "fst ?q2 = Inr 2" by code_simp
  have keys: "map fst (snd ?q1) = [''other_0'', ''7_0'', ''doc_1_0'']" by code_simp
  have keep: "map_of (snd ?q1) ''other_0'' = Some \<lparr>page_content = ''keep'', metadata = []\<rparr>"
    by code_simp
  have fresh: "map_option page_content (map_of (snd ?q1) ''doc_1_0'') = Some ''xyz''"
    by code_simp
  have q1: "?q1 = (Inr 2, snd ?q1)" using g1 by (metis prod.collapse)
  have q2: "?q2 = (Inr 2, snd ?q2)" using g2 by (metis prod.collapse)
  from process_and_store_idempotent [OF e q1 q2]
  have again: "snd ?q2 = snd ?q1" by (simp add: no_faults_def)
  from first g1 g2 keys keep fresh again show ?thesis
    by (simp only: Let_def)
qed

section \<open>Properties of the chat tasks\<close>

lemma task_of_put_task: "map_of (chat_tasks (put_task task_id t st)) task_id = Some t"
  by (simp add: put_task_def update_conv')

lemma status_history_Cons:
  "map_of (chat_tasks st) task_id = Some t \<Longrightarrow>
   status_history task_id (st # states) = task_status t # status_history task_id states"
  by (simp add: status_history_def)

lemma status_history_put_tasks:
  "status_history task_id (map (\<lambda>t. put_task task_id t st) ts) = map task_status ts"
  by (induction ts) (simp_all add: status_history_def task_of_put_task)

lemma chat_task_writes_statuses:
  "map task_status (chat_task_writes env now task_id question model t0) =
     (if RAG_AVAILABLE env
      then (case retriever_invoke env question of
              Inl e \<Rightarrow> [Retrieving, Retrieving, Failed]
            | Inr reviews \<Rightarrow>
                (case chain_invoke env reviews question of
                   Inl e \<Rightarrow> [Retrieving, Retrieving, Generating, Generating, Failed]
                 | Inr answer \<Rightarrow> [Retrieving, Retrieving, Generating, Generating, Completed]))
      else [Retrieving, Retrieving, Completed])"
  by (simp add: chat_task_writes_def Let_def task_failed_def task_completed_def
      split: sum.splits)

lemma chat_completions_submitted:
  assumes "chat_completions now0 task_id messages model st = (Inr ok, st0, job)"
  shows "\<exists>t. map_of (chat_tasks st0) task_id = Some t \<and> task_status t = Processing \<and>
             ok = (task_id, Processing) \<and>
             job = Some (task_id,
                         msg_content (last (filter (\<lambda>m. msg_role m = ''user'') messages)),
                         model)"
  using assms
  by (auto simp: chat_completions_def Let_def task_of_put_task split: if_splits)

lemma submitted_history:
  assumes "map_of (chat_tasks st0) task_id = Some t" and "task_status t = Processing"
  shows "status_history task_id (st0 # process_chat_task env now task_id question model st0)
         = Processing # map task_status (chat_task_writes env now task_id question model t)"
  using assms
  by (simp add: status_history_Cons process_chat_task_def status_history_put_tasks)

text \<open>
  C2, as the code has it. A submitted task starts in processing and its worker takes it
  to retrieving. With the RAG modules it goes on to generating and to completed, or to
  failed when the retrieval or the generation raises, which is a path of the
  specification's state machine. In demo mode (the RAG modules could not be imported) it
  goes from retrieving straight to completed. The last status is completed or failed,
  no earlier one is, the two never occur in one run, and no task goes from processing to
  completed without retrieving.
\<close>

theorem chat_task_state_machine:
  assumes sub: "chat_completions now0 task_id messages model st
                  = (Inr ok, st0, Some (tid, question, model'))"
  shows "let h = remdups_adj (status_history task_id
                    (st0 # process_chat_task env now tid question model' st0))
         in h = (if RAG_AVAILABLE env
                 then (case retriever_invoke env question of
                         Inl e \<Rightarrow> [Processing, Retrieving, Failed]
                       | Inr reviews \<Rightarrow>
                           (case chain_invoke env reviews question of
                              Inl e \<Rightarrow> [Processing, Retrieving, Generating, Failed]
                            | Inr answer \<Rightarrow> [Processing, Retrieving, Generating, Completed]))
                 else [Processing, Retrieving, Completed]) \<and>
            terminal (last h) \<and> list_all (\<lambda>s. \<not> terminal s) (butlast h) \<and>
            \<not> (Completed \<in> set h \<and> Failed \<in> set h) \<and>
            take 2 h = [Processing, Retrieving] \<and>
            (RAG_AVAILABLE env \<longrightarrow> spec_path h) \<and>
            (RAG_AVAILABLE env \<and> Completed \<in> set h
               \<longrightarrow> h = [Processing, Retrieving, Generating, Completed])"
proof -
  from chat_completions_submitted [OF sub] obtain t where
    t: "map_of (chat_tasks st0) task_id = Some t" "task_status t = Processing"
    and tid: "tid = task_id" by auto
  show ?thesis
    unfolding tid submitted_history [OF t] chat_task_writes_statuses
    by (simp add: terminal_def spec_transition_def split: sum.splits)
qed

theorem chat_task_state_machine_witness:
  "remdups_adj (status_history ''t1''
     (put_task ''t1''
        \<lparr>task_status = Processing, task_result = None, task_created_at = Some 0,
         task_question = Some ''What is the warranty period?'', task_message = None,
         task_error = None, completed_at = None, failed_at = None\<rparr> empty_state
      # process_chat_task example_env 5 ''t1'' ''What is the warranty period?'' ''llama''
          (put_task ''t1''
             \<lparr>task_status = Processing, task_result = None, task_created_at = Some 0,
              task_question = Some ''What is the warranty period?'', task_message = None,
              task_error = None, completed_at = None, failed_at = None\<rparr> empty_state)))
   = [Processing, Retrieving, Generating, Completed]"
proof -
  have sub: "chat_completions 0 ''t1''
               [\<lparr>msg_role = ''user'', msg_content = ''What is the warranty period?''\<rparr>]
               ''llama'' empty_state
             = (Inr (''t1'', Processing),
                put_task ''t1''
                  \<lparr>task_status = Processing, task_result = None, task_created_at = Some 0,
                   task_question = Some ''What is the warranty period?'', task_message = None,
                   task_error = None, completed_at = None, failed_at = None\<rparr> empty_state,
                Some (''t1'', ''What is the warranty period?'', ''llama''))"
    by (simp add: chat_completions_def Let_def)
  from chat_task_state_machine [OF sub, of example_env 5]
  show ?thesis by (simp add: Let_def example_env_def)
qed

text \<open>
  C2 as stated fails in demo mode: the task of a submitted question is completed after
  processing and retrieving, and was never generating.
\<close>

theorem demo_mode_skips_generating_counterexample:
  "status_history ''t1''
     (fst (snd (chat_completions 0 ''t1''
                  [\<lparr>msg_role = ''user'', msg_content = ''What is the warranty period?''\<rparr>]
                  ''llama'' empty_state))
      # process_chat_task demo_env 5 ''t1'' ''What is the warranty period?'' ''llama''
          (fst (snd (chat_completions 0 ''t1''
                  [\<lparr>msg_role = ''user'', msg_content = ''What is the warranty period?''\<rparr>]
                  ''llama'' empty_state))))
   = [Processing, Retrieving, Retrieving, Completed]"
  by code_simp

text \<open>
  C5. Polling a task id that is not in the task map gives NotFound. Polling a completed
  or failed task whose completion or failure time is more than one hour before the poll
  gives NotFound and deletes the entry from the task map in that poll, so that any later
  poll finds it absent.
\<close>

theorem get_chat_task_expired:
  "(map_of (chat_tasks st) task_id = None \<longrightarrow>
      get_chat_task now task_id st = (Inl NotFound, st)) \<and>
   (map_of (chat_tasks st) task_id = Some task_info \<and> terminal (task_status task_info) \<and>
    finished_at task_info = Some t \<and> now - t > one_hour \<longrightarrow>
      (\<exists>st'. get_chat_task now task_id st = (Inl NotFound, st') \<and>
             chat_tasks st' = AList.delete task_id (chat_tasks st) \<and>
             map_of (chat_tasks st') task_id = None \<and>
             get_chat_task now' task_id st' = (Inl NotFound, st')))"
  by (auto simp: get_chat_task_def NotFound_def terminal_def delete_conv')

theorem get_chat_task_expired_witness:
  "get_chat_task (one_hour + 6) ''t1''
     (put_task ''t1'' (task_completed MsgAnswered
          (make_completion 5 ''t1'' ''llama'' ''warranty?'' ''five years'') 5 blank_task)
        empty_state)
   = (Inl NotFound, empty_state) \<and>
   get_chat_task (one_hour + 7) ''t1'' empty_state = (Inl NotFound, empty_state)"
proof -
  let ?t = "task_completed MsgAnswered
              (make_completion 5 ''t1'' ''llama'' ''warranty?'' ''five years'') 5 blank_task"
  let ?st = "put_task ''t1'' ?t empty_state"
  have a: "map_of (chat_tasks ?st) ''t1'' = Some ?t"
    by (rule task_of_put_task)
  have b: "terminal (task_status ?t)"
    by (simp add: terminal_def task_completed_def)
  have c: "finished_at ?t = Some 5"
    by (simp add: finished_at_def task_completed_def)
  have d: "one_hour + 6 - 5 > one_hour" by simp
  have e: "?st\<lparr>chat_tasks := AList.delete ''t1'' (chat_tasks ?st)\<rparr> = empty_state"
    by (simp add: put_task_def empty_state_def)
  from get_chat_task_expired [of ?st "''t1''" "one_hour + 6" ?t 5 "one_hour + 7"] a b c d
  obtain st' where
    r: "get_chat_task (one_hour + 6) ''t1'' ?st = (Inl NotFound, st')" and
    s: "chat_tasks st' = AList.delete ''t1'' (chat_tasks ?st)" and
    n: "get_chat_task (one_hour + 7) ''t1'' st' = (Inl NotFound, st')"
    by blast
  have "get_chat_task (one_hour + 6) ''t1'' ?st
          = (Inl NotFound, ?st\<lparr>chat_tasks := AList.delete ''t1'' (chat_tasks ?st)\<rparr>)"
    using a b c d by (simp add: get_chat_task_def NotFound_def terminal_def)
  with r have "st' = empty_state" by (simp add: e)
  with r n show ?thesis by simp
qed

text \<open>
  C8. A poll raises NotFound exactly when the task id is absent from the task map or the
  task is completed or failed with a completion or failure time more than one hour old.
  A task that is processing, retrieving or generating is returned whatever its age, and
  the poll leaves the task map as it was. A poll raises no other error.
\<close>

theorem get_chat_task_not_found_iff:
  "(fst (get_chat_task now task_id st) = Inl NotFound \<longleftrightarrow>
      map_of (chat_tasks st) task_id = None \<or>
      (\<exists>task_info t. map_of (chat_tasks st) task_id = Some task_info \<and>
          terminal (task_status task_info) \<and> finished_at task_info = Some t \<and>
          now - t > one_hour)) \<and>
   (\<forall>task_info. map_of (chat_tasks st) task_id = Some task_info \<and>
        task_status task_info \<in> {Processing, Retrieving, Generating} \<longrightarrow>
        get_chat_task now task_id st = (Inr task_info, st)) \<and>
   (\<forall>e. fst (get_chat_task now task_id st) = Inl e \<longrightarrow> e = NotFound)"
  by (auto simp: get_chat_task_def NotFound_def terminal_def split: option.splits)

theorem get_chat_task_not_found_iff_witness:
  "get_chat_task (1000 * one_hour) ''t1''
     (put_task ''t1'' (blank_task\<lparr>task_status := Retrieving, task_created_at := Some 0\<rparr>)
        empty_state)
   = (Inr (blank_task\<lparr>task_status := Retrieving, task_created_at := Some 0\<rparr>),
      put_task ''t1'' (blank_task\<lparr>task_status := Retrieving, task_created_at := Some 0\<rparr>)
        empty_state) \<and>
   fst (get_chat_task (1000 * one_hour) ''t2''
     (put_task ''t1'' (blank_task\<lparr>task_status := Retrieving, task_created_at := Some 0\<rparr>)
        empty_state)) = Inl NotFound"
proof -
  let ?t = "blank_task\<lparr>task_status := Retrieving, task_created_at := Some 0\<rparr>"
  let ?st = "put_task ''t1'' ?t empty_state"
  have a: "map_of (chat_tasks ?st) ''t1'' = Some ?t"
    by (rule task_of_put_task)
  have b: "task_status ?t \<in> {Processing, Retrieving, Generating}" by simp
  have c: "map_of (chat_tasks ?st) ''t2'' = None"
    by (simp add: put_task_def empty_state_def)
  from get_chat_task_not_found_iff [of "1000 * one_hour" "''t1''" ?st] a b
  have one: "get_chat_task (1000 * one_hour) ''t1'' ?st = (Inr ?t, ?st)" by blast
  from get_chat_task_not_found_iff [of "1000 * one_hour" "''t2''" ?st] c
  have two: "fst (get_chat_task (1000 * one_hour) ''t2'' ?st) = Inl NotFound" by blast
  from one two show ?thesis by simp
qed

section \<open>Properties of the registries\<close>

lemma fold_delete_filter:
  "fold AList.delete ids ds = filter (\<lambda>item. fst item \<notin> set ids) ds"
proof (induction ids arbitrary: ds)
  case Nil
  show ?case by simp
next
  case (Cons k ids)
  have "AList.delete k ds = filter (\<lambda>item. fst item \<noteq> k) ds"
    by (induction ds) auto
  then show ?case by (auto simp: Cons.IH intro: filter_cong)
qed

lemma key_in_filtered:
  assumes "distinct (map fst ds)" and "item \<in> set ds"
  shows "fst item \<in> fst ` set (filter P ds) \<longleftrightarrow> P item"
proof
  assume "fst item \<in> fst ` set (filter P ds)"
  then obtain other where o: "other \<in> set ds" "P other" "fst other = fst item" by auto
  from assms(1) have "inj_on fst (set ds)" by (simp add: distinct_map)
  with o assms(2) have "other = item" by (auto dest: inj_onD)
  with o show "P item" by simp
next
  assume "P item"
  with assms(2) show "fst item \<in> fst ` set (filter P ds)" by auto
qed

lemma delete_owned:
  assumes "distinct (map fst ds)"
  shows "fold AList.delete (docs_to_delete d ds) ds = filter (\<lambda>item. kb_id (snd item) \<noteq> d) ds"
proof -
  have "filter (\<lambda>item. fst item \<notin> set (docs_to_delete d ds)) ds
      = filter (\<lambda>item. kb_id (snd item) \<noteq> d) ds"
  proof (rule filter_cong [OF refl])
    fix item assume "item \<in> set ds"
    from key_in_filtered [OF assms this, of "\<lambda>item. kb_id (snd item) = d"]
    show "(fst item \<notin> set (docs_to_delete d ds)) = (kb_id (snd item) \<noteq> d)"
      by (simp add: docs_to_delete_def)
  qed
  then show ?thesis by (simp add: fold_delete_filter)
qed

lemma length_filter_split:
  "int (length (filter (\<lambda>x. \<not> P x) xs)) = int (length xs) - int (length (filter P xs))"
  using sum_length_filter_compl [of P xs] by simp

lemma sum_list_filter_split:
  "sum_list (map f (filter (\<lambda>x. \<not> P x) xs))
     = sum_list (map f xs) - (sum_list (map f (filter P xs)) :: int)"
  by (induction xs) simp_all

lemma delete_distinct_length:
  "distinct (map fst al) \<Longrightarrow> map_of al k = Some v \<Longrightarrow>
   Suc (length (AList.delete k al)) = length al"
proof (induction al)
  case Nil
  then show ?case by simp
next
  case (Cons p al)
  show ?case
  proof (cases "fst p = k")
    case True
    with Cons.prems(1) have "k \<notin> fst ` set al" by auto
    then have "AList.delete k al = al" by simp
    with True show ?thesis by simp
  next
    case False
    with Cons show ?thesis by auto
  qed
qed

lemma delete_distinct_sum:
  "distinct (map fst al) \<Longrightarrow> map_of al k = Some v \<Longrightarrow>
   sum_list (map (\<lambda>item. f (snd item)) (AList.delete k al))
     = sum_list (map (\<lambda>item. f (snd item)) al) - (f v :: int)"
proof (induction al)
  case Nil
  then show ?case by simp
next
  case (Cons p al)
  show ?case
  proof (cases "fst p = k")
    case True
    with Cons.prems(1) have "k \<notin> fst ` set al" by auto
    then have "AList.delete k al = al" by simp
    with True Cons.prems(2) show ?thesis by (cases p) simp
  next
    case False
    with Cons show ?thesis by (cases p) auto
  qed
qed

text \<open>
  C6. Deleting an existing knowledge base removes from the document registry exactly the
  records that name it, in whatever number, keeps every other record, and removes the
  knowledge base itself. The number of documents falls by the number of removed records,
  the number of knowledge bases by one, the chunk total of the knowledge bases by the
  removed one's chunk count and the chunk total of the documents by the removed records'
  chunk numbers. The vector store, the tasks and the files are as before. The registries
  are dictionaries: their keys are distinct.
\<close>

theorem delete_dataset_cascade:
  assumes kb: "map_of (knowledge_bases st) dataset_id = Some kb"
    and dk: "distinct (map fst (knowledge_bases st))"
    and dd: "distinct (map fst (documents_storage st))"
  shows "\<exists>st'. delete_dataset dataset_id st = (Response 0 None, st') \<and>
           documents_storage st'
             = filter (\<lambda>item. kb_id (snd item) \<noteq> dataset_id) (documents_storage st) \<and>
           owned_documents dataset_id st' = [] \<and>
           knowledge_bases st' = AList.delete dataset_id (knowledge_bases st) \<and>
           map_of (knowledge_bases st') dataset_id = None \<and>
           int (total_documents st')
             = int (total_documents st) - int (length (owned_documents dataset_id st)) \<and>
           Suc (total_knowledge_bases st') = total_knowledge_bases st \<and>
           total_chunk_count st' = total_chunk_count st - chunk_count kb \<and>
           total_chunk_num st'
             = total_chunk_num st
               - sum_list (map (\<lambda>item. chunk_num (snd item)) (owned_documents dataset_id st)) \<and>
           vector_store st' = vector_store st \<and>
           chat_tasks st' = chat_tasks st \<and> files st' = files st"
proof -
  let ?ds = "filter (\<lambda>item. kb_id (snd item) \<noteq> dataset_id) (documents_storage st)"
  let ?st' = "st\<lparr>documents_storage := ?ds,
                 knowledge_bases := AList.delete dataset_id (knowledge_bases st)\<rparr>"
  from kb have "dataset_id \<in> fst ` set (knowledge_bases st)"
    by (metis domI dom_map_of_conv_image_fst)
  then have run: "delete_dataset dataset_id st = (Response 0 None, ?st')"
    by (simp add: delete_dataset_def delete_owned [OF dd])
  have a: "owned_documents dataset_id ?st' = []"
    by (simp add: owned_documents_def)
  have b: "map_of (knowledge_bases ?st') dataset_id = None"
    by (simp add: delete_conv')
  have c: "int (total_documents ?st')
      = int (total_documents st) - int (length (owned_documents dataset_id st))"
    by (simp add: total_documents_def owned_documents_def length_filter_split)
  have d: "Suc (total_knowledge_bases ?st') = total_knowledge_bases st"
    using delete_distinct_length [OF dk kb] by (simp add: total_knowledge_bases_def)
  have e: "total_chunk_count ?st' = total_chunk_count st - chunk_count kb"
    using delete_distinct_sum [OF dk kb, of chunk_count] by (simp add: total_chunk_count_def)
  have f: "total_chunk_num ?st' = total_chunk_num st
      - sum_list (map (\<lambda>item. chunk_num (snd item)) (owned_documents dataset_id st))"
    by (simp add: total_chunk_num_def owned_documents_def sum_list_filter_split)
  from run a b c d e f show ?thesis by simp
qed

theorem delete_dataset_cascade_witness:
  "\<exists>st'. delete_dataset ''kb_1'' example_registry = (Response 0 None, st') \<and>
         map fst (documents_storage st') = [''d2''] \<and>
         map fst (knowledge_bases st') = [''kb_2''] \<and>
         total_documents example_registry = 3 \<and> total_documents st' = 1 \<and>
         total_chunk_num example_registry = 9 \<and> total_chunk_num st' = 4 \<and>
         vector_store st' = vector_store example_registry \<and>
         vs_count (vector_store st') = 1"
proof -
  have kb: "map_of (knowledge_bases example_registry) ''kb_1''
              = Some ((example_kb ''kb_1'')\<lparr>document_count := 2, chunk_count := 5\<rparr>)"
    by (simp add: example_registry_def)
  have dk: "distinct (map fst (knowledge_bases example_registry))"
    by (simp add: example_registry_def)
  have dd: "distinct (map fst (documents_storage example_registry))"
    by (simp add: example_registry_def)
  from delete_dataset_cascade [OF kb dk dd] obtain st' where
    r: "delete_dataset ''kb_1'' example_registry = (Response 0 None, st')" and
    d: "documents_storage st'
          = filter (\<lambda>item. kb_id (snd item) \<noteq> ''kb_1'') (documents_storage example_registry)" and
    k: "knowledge_bases st' = AList.delete ''kb_1'' (knowledge_bases example_registry)" and
    v: "vector_store st' = vector_store example_registry"
    by blast
  have d': "documents_storage st' = [(''d2'', example_doc ''d2'' ''kb_2'' 4)]"
    by (simp add: d example_registry_def example_doc_def)
  have k': "map fst (knowledge_bases st') = [''kb_2'']"
    by (simp add: k example_registry_def)
  have v': "vs_count (vector_store st') = 1"
    by (simp add: v example_registry_def vs_count_def)
  have t: "total_documents example_registry = 3" "total_chunk_num example_registry = 9"
    by (simp_all add: example_registry_def total_documents_def total_chunk_num_def
        example_doc_def)
  have t': "total_documents st' = 1" "total_chunk_num st' = 4"
    by (simp_all add: d' total_documents_def total_chunk_num_def example_doc_def)
  from r d' k' v v' t t' show ?thesis by simp
qed

lemma modify_doc_document_count:
  "modify_doc k f st = Some st' \<Longrightarrow> document_count_of st' = document_count_of st"
  by (auto simp: modify_doc_def document_count_of_def fun_eq_iff split: option.splits)

lemma modify_kb_document_count:
  assumes "modify_kb k f st = Some st'" and "\<And>kb. document_count (f kb) = document_count kb"
  shows "document_count_of st' = document_count_of st"
  using assms
  by (auto simp: modify_kb_def document_count_of_def fun_eq_iff update_conv' split: option.splits)

lemma process_csv_knowledge_bases:
  "knowledge_bases (snd (process_csv_to_vector_store env faults path kbid st)) = knowledge_bases st"
  by (simp add: process_csv_to_vector_store_def Let_def split: sum.splits prod.splits)

lemma process_csv_document_count:
  "process_csv_to_vector_store env faults path kbid st = (b, st') \<Longrightarrow>
   document_count_of st' = document_count_of st"
  using process_csv_knowledge_bases [of env faults path kbid st]
  by (simp add: document_count_of_def fun_eq_iff)

lemma vector_store_update_document_count:
  "document_count_of (st\<lparr>vector_store := vs\<rparr>) = document_count_of st"
  by (simp add: document_count_of_def fun_eq_iff)

lemma process_uploaded_other_document_count:
  "document_count_of (fst (process_uploaded_other did kbid st)) = document_count_of st"
  unfolding process_uploaded_other_def
  by (auto simp: dest!: modify_doc_document_count dest: modify_kb_document_count
      split: option.splits)

lemma process_uploaded_csv_document_count:
  "document_count_of (fst (process_uploaded_csv env faults did path kbid st))
     = document_count_of st"
  unfolding process_uploaded_csv_def
  by (auto simp: dest!: modify_doc_document_count process_csv_document_count
      dest: modify_kb_document_count
      split: sum.splits prod.splits option.splits bool.splits)

lemma process_uploaded_txt_document_count:
  "document_count_of (fst (process_uploaded_txt env faults did path kbid st))
     = document_count_of st"
  unfolding process_uploaded_txt_def
  by (auto simp: vector_store_update_document_count
      dest!: modify_doc_document_count
      dest: modify_kb_document_count
      split: sum.splits prod.splits option.splits)


lemma process_uploaded_body_document_count:
  "document_count_of (fst (process_uploaded_body env faults did path kbid st))
     = document_count_of st"
  by (simp add: process_uploaded_body_def process_uploaded_csv_document_count
      process_uploaded_txt_document_count process_uploaded_other_document_count)

lemma process_uploaded_document_document_count:
  "document_count_of (process_uploaded_document env faults did path kbid st)
     = document_count_of st"
proof -
  obtain st1 err where body: "process_uploaded_body env faults did path kbid st = (st1, err)"
    by (cases "process_uploaded_body env faults did path kbid st")
  with process_uploaded_body_document_count [of env faults did path kbid st]
  have keep: "document_count_of st1 = document_count_of st" by simp
  show ?thesis
  proof (cases err)
    case None
    with body keep show ?thesis by (simp add: process_uploaded_document_def)
  next
    case (Some e)
    show ?thesis
    proof (cases "modify_doc did (\<lambda>d. d\<lparr>doc_status := Failed\<rparr>) st1")
      case None
      with body Some keep show ?thesis by (simp add: process_uploaded_document_def)
    next
      case (Some st2)
      from modify_doc_document_count [OF this] body \<open>err = Some e\<close> Some keep
      show ?thesis by (simp add: process_uploaded_document_def)
    qed
  qed
qed

lemma upload_document_accepted:
  assumes kb: "map_of (knowledge_bases st) dataset_id = Some kb"
    and ext: "path_suffix_lower env filename \<in> allowed_extensions"
  shows "upload_document env now None dataset_id filename content st =
     (Response 0 (Some
        \<lparr>doc_id = generate_doc_id env filename, doc_name = filename, kb_id = dataset_id,
         file_path = Some (''./data/'' @ filename),
         doc_size = show_nat (length content) @ '' bytes'',
         doc_status = Processing, chunk_num = 0, doc_created_at = now,
         doc_type = drop 1 (path_suffix_lower env filename)\<rparr>),
      st\<lparr>files := AList.update (''./data/'' @ filename) content (files st),
         documents_storage := AList.update (generate_doc_id env filename)
           \<lparr>doc_id = generate_doc_id env filename, doc_name = filename, kb_id = dataset_id,
            file_path = Some (''./data/'' @ filename),
            doc_size = show_nat (length content) @ '' bytes'',
            doc_status = Processing, chunk_num = 0, doc_created_at = now,
            doc_type = drop 1 (path_suffix_lower env filename)\<rparr> (documents_storage st),
         knowledge_bases := AList.update dataset_id
           (kb\<lparr>document_count := document_count kb + 1\<rparr>) (knowledge_bases st)\<rparr>,
      if RAG_AVAILABLE env
      then Some (generate_doc_id env filename, ''./data/'' @ filename, dataset_id) else None)"
proof -
  from kb have "dataset_id \<in> fst ` set (knowledge_bases st)"
    by (metis domI dom_map_of_conv_image_fst)
  with kb ext show ?thesis
    by (simp add: upload_document_def modify_kb_def Let_def)
qed

lemma upload_document_Response_0:
  assumes "upload_document env now io_fault dataset_id filename content st
             = (Response 0 data, st', job)"
  shows "io_fault = None \<and> path_suffix_lower env filename \<in> allowed_extensions \<and>
         (\<exists>kb. map_of (knowledge_bases st) dataset_id = Some kb)"
proof -
  have "dataset_id \<in> fst ` set (knowledge_bases st) \<Longrightarrow>
        \<exists>kb. map_of (knowledge_bases st) dataset_id = Some kb"
    by (metis domD dom_map_of_conv_image_fst)
  with assms show ?thesis
    by (auto simp: upload_document_def Let_def split: if_splits option.splits)
qed

text \<open>
  C9. An upload into an existing knowledge base with an allowed extension, whose file is
  saved without error, is accepted: the record is stored with status processing, the
  ingestion job is only scheduled, and the knowledge base's document count is already
  one higher when the handler returns. Running the ingestion job afterwards leaves the
  document count at that value whatever the ingestion does, also when it fails and marks
  the record failed.
\<close>

theorem upload_increments_document_count:
  assumes kb: "map_of (knowledge_bases st) dataset_id = Some kb"
    and ext: "path_suffix_lower env filename \<in> allowed_extensions"
  shows "\<exists>d st' job.
           upload_document env now None dataset_id filename content st
             = (Response 0 (Some d), st', job) \<and>
           doc_status d = Processing \<and>
           map_of (documents_storage st') (doc_id d) = Some d \<and>
           job = (if RAG_AVAILABLE env
                  then Some (doc_id d, ''./data/'' @ filename, dataset_id) else None) \<and>
           document_count_of st dataset_id = Some (document_count kb) \<and>
           document_count_of st' dataset_id = Some (document_count kb + 1) \<and>
           (\<forall>faults. document_count_of
                        (process_uploaded_document env faults (doc_id d)
                           (''./data/'' @ filename) dataset_id st') dataset_id
                      = Some (document_count kb + 1))"
  using kb
  by (simp add: upload_document_accepted [OF kb ext] process_uploaded_document_document_count
      document_count_of_def update_conv')

theorem upload_increments_document_count_witness:
  "(let up = upload_document example_env 0 None ''kb_1'' ''b.csv'' ''not a table''
               example_upload_state;
        st1 = fst (snd up);
        st2 = process_uploaded_document example_env no_faults ''doc_00000000''
                ''./data/b.csv'' ''kb_1'' st1
    in document_count_of example_upload_state ''kb_1'' = Some 0 \<and>
       response_code (fst up) = 0 \<and>
       document_count_of st1 ''kb_1'' = Some 1 \<and>
       document_count_of st2 ''kb_1'' = Some 1 \<and>
       map_option doc_status (map_of (documents_storage st2) ''doc_00000000'') = Some Failed)"
proof -
  let ?up = "upload_document example_env 0 None ''kb_1'' ''b.csv'' ''not a table''
               example_upload_state"
  have kb: "map_of (knowledge_bases example_upload_state) ''kb_1'' = Some (example_kb ''kb_1'')"
    by (simp add: example_upload_state_def)
  have ext: "path_suffix_lower example_env ''b.csv'' \<in> allowed_extensions"
    by (simp add: example_env_def allowed_extensions_def)
  from upload_increments_document_count [OF kb ext, of 0 "''not a table''"]
  obtain d st' job where
    u: "?up = (Response 0 (Some d), st', job)" and
    m: "map_of (documents_storage st') (doc_id d) = Some d" and
    c0: "document_count_of example_upload_state ''kb_1'' = Some (document_count (example_kb ''kb_1''))" and
    c1: "document_count_of st' ''kb_1'' = Some (document_count (example_kb ''kb_1'') + 1)" and
    c2: "\<forall>faults. document_count_of
            (process_uploaded_document example_env faults (doc_id d) (''./data/'' @ ''b.csv'')
               ''kb_1'' st') ''kb_1'' = Some (document_count (example_kb ''kb_1'') + 1)"
    by blast
  have did: "doc_id d = ''doc_00000000''"
    using u upload_document_accepted [OF kb ext, of 0 "''not a table''"]
    by (auto simp: generate_doc_id_def example_env_def)
  have failed: "map_option doc_status
                  (map_of (documents_storage
                     (process_uploaded_document example_env no_faults ''doc_00000000''
                        ''./data/b.csv'' ''kb_1'' (fst (snd ?up)))) ''doc_00000000'') = Some Failed"
    by code_simp
  from u c0 c1 c2 did failed show ?thesis
    by (simp add: Let_def example_kb_def)
qed

text \<open>
  C10. The document id is \<open>doc_\<close> followed by the first eight characters of the MD5
  digest of the file name, and depends on nothing else. An accepted upload stores its
  record under that id; a later accepted upload of a file of the same name, into any
  knowledge base, while that id is in the registry, gets the same id and replaces the
  record: the registry has the same ids in the same number as before the upload, and the
  record under the id is the new one, owned by the knowledge base of the later upload.
\<close>

theorem same_filename_overwrites:
  assumes u1: "upload_document env now1 fault1 kb1 filename content1 st
                 = (Response 0 (Some d1), st1, job1)"
    and present: "doc_id d1 \<in> fst ` set (documents_storage sta)"
    and u2: "upload_document env now2 fault2 kb2 filename content2 sta
                 = (Response 0 (Some d2), st2, job2)"
  shows "doc_id d1 = ''doc_'' @ take 8 (md5_hexdigest env filename) \<and>
         doc_id d2 = doc_id d1 \<and>
         map_of (documents_storage st1) (doc_id d1) = Some d1 \<and>
         map_of (documents_storage st2) (doc_id d1) = Some d2 \<and>
         kb_id d1 = kb1 \<and> kb_id d2 = kb2 \<and>
         map fst (documents_storage st2) = map fst (documents_storage sta) \<and>
         total_documents st2 = total_documents sta"
proof -
  from upload_document_Response_0 [OF u1] obtain k1 where
    f1: "fault1 = None" and e1: "path_suffix_lower env filename \<in> allowed_extensions"
    and k1: "map_of (knowledge_bases st) kb1 = Some k1" by blast
  from upload_document_Response_0 [OF u2] obtain k2 where
    f2: "fault2 = None" and k2: "map_of (knowledge_bases sta) kb2 = Some k2" by blast
  note a1 = u1 [unfolded f1 upload_document_accepted [OF k1 e1]]
  note a2 = u2 [unfolded f2 upload_document_accepted [OF k2 e1]]
  from a1 have id1: "doc_id d1 = generate_doc_id env filename" and kb1: "kb_id d1 = kb1"
    and m1: "map_of (documents_storage st1) (doc_id d1) = Some d1"
    by (auto simp: update_conv')
  from a2 have id2: "doc_id d2 = generate_doc_id env filename" and kb2: "kb_id d2 = kb2"
    and m2: "map_of (documents_storage st2) (generate_doc_id env filename) = Some d2"
    and s2: "documents_storage st2
               = AList.update (generate_doc_id env filename) d2 (documents_storage sta)"
    by (auto simp: update_conv')
  from present id1 have "generate_doc_id env filename \<in> set (map fst (documents_storage sta))"
    by simp
  then have keys: "map fst (documents_storage st2) = map fst (documents_storage sta)"
    by (simp add: s2 update_keys)
  then have "length (map fst (documents_storage st2)) = length (map fst (documents_storage sta))"
    by simp
  then have len: "total_documents st2 = total_documents sta"
    by (simp add: total_documents_def)
  from id1 id2 kb1 kb2 m1 m2 keys len show ?thesis
    by (simp add: generate_doc_id_def)
qed

theorem same_filename_overwrites_witness:
  "(let st1 = fst (snd (upload_document example_env 0 None ''kb_1'' ''a.csv'' ''x''
                          example_upload_state));
        st2 = fst (snd (upload_document example_env 1 None ''kb_2'' ''a.csv'' ''y'' st1))
    in total_documents st1 = 1 \<and> total_documents st2 = 1 \<and>
       map_option kb_id (map_of (documents_storage st1) ''doc_00000000'') = Some ''kb_1'' \<and>
       map_option kb_id (map_of (documents_storage st2) ''doc_00000000'') = Some ''kb_2'')"
proof -
  let ?up1 = "upload_document example_env 0 None ''kb_1'' ''a.csv'' ''x'' example_upload_state"
  let ?st1 = "fst (snd ?up1)"
  let ?up2 = "upload_document example_env 1 None ''kb_2'' ''a.csv'' ''y'' ?st1"
  let ?st2 = "fst (snd ?up2)"
  have kb1: "map_of (knowledge_bases example_upload_state) ''kb_1'' = Some (example_kb ''kb_1'')"
    by (simp add: example_upload_state_def)
  have kb2: "map_of (knowledge_bases ?st1) ''kb_2'' = Some (example_kb ''kb_2'')"
    by code_simp
  have ext: "path_suffix_lower example_env ''a.csv'' \<in> allowed_extensions"
    by (simp add: example_env_def allowed_extensions_def)
  note a1 = upload_document_accepted [OF kb1 ext, of 0 "''x''"]
  note a2 = upload_document_accepted [OF kb2 ext, of 1 "''y''"]
  have id: "generate_doc_id example_env ''a.csv'' = ''doc_00000000''"
    by (simp add: generate_doc_id_def example_env_def)
  have "\<exists>d1. ?up1 = (Response 0 (Some d1), ?st1, snd (snd ?up1))"
    by (simp add: a1)
  then obtain d1 where u1: "?up1 = (Response 0 (Some d1), ?st1, snd (snd ?up1))" ..
  have "\<exists>d2. ?up2 = (Response 0 (Some d2), ?st2, snd (snd ?up2))"
    by (simp only: a2 fst_conv snd_conv) simp
  then obtain d2 where u2: "?up2 = (Response 0 (Some d2), ?st2, snd (snd ?up2))" ..
  have id1: "doc_id d1 = ''doc_00000000''"
    using u1 by (auto simp: a1 id)
  have one: "total_documents ?st1 = 1"
    by code_simp
  have "map_of (documents_storage ?st1) ''doc_00000000'' \<noteq> None"
    by code_simp
  then have present: "doc_id d1 \<in> fst ` set (documents_storage ?st1)"
    by (simp add: id1 map_of_eq_None_iff)
  from same_filename_overwrites [OF u1 present u2]
  have m1: "map_of (documents_storage ?st1) (doc_id d1) = Some d1"
    and m2: "map_of (documents_storage ?st2) (doc_id d1) = Some d2"
    and k1: "kb_id d1 = ''kb_1''" and k2: "kb_id d2 = ''kb_2''"
    and same: "total_documents ?st2 = total_documents ?st1"
    by blast+
  from m1 k1 have r1:
    "map_option kb_id (map_of (documents_storage ?st1) ''doc_00000000'') = Some ''kb_1''"
    unfolding id1 by simp
  from m2 k2 have r2:
    "map_option kb_id (map_of (documents_storage ?st2) ''doc_00000000'') = Some ''kb_2''"
    unfolding id1 by simp
  from one same r1 r2 show ?thesis by (simp add: Let_def)
qed

lemma length_csv_documents:
  "length (csv_documents path kbid cols i rows)
     = length (filter (\<lambda>row. py_strip (row_content cols row) \<noteq> []) rows)"
  by (induction rows arbitrary: i) simp_all

text \<open>
  C3, as the code has it. A CSV upload into an existing knowledge base is accepted and
  raises the document count by one. When its ingestion commits, every row whose content
  is not blank has become one document and every other row was skipped without stopping
  the ingestion; the record is completed, and its chunk number and the increase of the
  knowledge base's chunk count are the number of rows of the file, skipped rows
  included, whatever the number of chunks written.
\<close>

theorem csv_upload_counts:
  assumes kb: "map_of (knowledge_bases st) dataset_id = Some kb"
    and ext1: "path_suffix_lower env filename = ''.csv''"
    and ext2: "path_suffix_lower env (''./data/'' @ filename) = ''.csv''"
    and rag: "RAG_AVAILABLE env"
    and parse: "parse_csv env content = Inr df"
    and docs: "csv_documents (''./data/'' @ filename) dataset_id (df_columns df) 0 (df_rows df)
                 \<noteq> []"
    and commit: "process_and_store (new_splitter env) faults DocumentProcessor_default
                   (csv_documents (''./data/'' @ filename) dataset_id (df_columns df) 0
                      (df_rows df))
                   (vector_store st) = (Inr n, vs)"
  shows "let up = upload_document env now None dataset_id filename content st;
             st1 = fst (snd up);
             st2 = process_uploaded_document env faults (generate_doc_id env filename)
                     (''./data/'' @ filename) dataset_id st1
         in response_code (fst up) = 0 \<and>
            snd (snd up) = Some (generate_doc_id env filename, ''./data/'' @ filename, dataset_id) \<and>
            vector_store st2 = vs \<and>
            length (csv_documents (''./data/'' @ filename) dataset_id (df_columns df) 0
                      (df_rows df))
              = length (filter (\<lambda>row. py_strip (row_content (df_columns df) row) \<noteq> [])
                          (df_rows df)) \<and>
            document_count_of st1 dataset_id = Some (document_count kb + 1) \<and>
            document_count_of st2 dataset_id = Some (document_count kb + 1) \<and>
            chunk_count_of st2 dataset_id
              = Some (chunk_count kb + int (length (df_rows df))) \<and>
            map_option doc_status (map_of (documents_storage st2) (generate_doc_id env filename))
              = Some Completed \<and>
            map_option chunk_num (map_of (documents_storage st2) (generate_doc_id env filename))
              = Some (int (length (df_rows df)))"
proof -
  have ext: "path_suffix_lower env filename \<in> allowed_extensions"
    by (simp add: ext1 allowed_extensions_def)
  show ?thesis
    unfolding upload_document_accepted [OF kb ext]
    using rag ext2 parse docs commit
    by (simp add: Let_def process_uploaded_document_def process_uploaded_body_def
        process_uploaded_csv_def process_csv_to_vector_store_def read_csv_def
        modify_doc_def modify_kb_def update_conv' document_count_of_def chunk_count_of_def
        length_csv_documents)
qed

theorem csv_upload_counts_witness:
  "(let st1 = fst (snd (upload_document example_env 0 None ''kb_1'' ''a.csv'' example_csv
                          example_upload_state));
        st2 = process_uploaded_document example_env no_faults ''doc_00000000''
                ''./data/a.csv'' ''kb_1'' st1
    in length (csv_documents ''./data/a.csv'' ''kb_1'' (df_columns example_dataframe) 0
                 (df_rows example_dataframe)) = 2 \<and>
       length (df_rows example_dataframe) = 3 \<and>
       document_count_of st2 ''kb_1'' = Some 1 \<and>
       chunk_count_of st2 ''kb_1'' = Some 3 \<and>
       map_option doc_status (map_of (documents_storage st2) ''doc_00000000'') = Some Completed)"
proof -
  let ?docs = "csv_documents (''./data/'' @ ''a.csv'') ''kb_1'' (df_columns example_dataframe) 0
                 (df_rows example_dataframe)"
  let ?commit = "process_and_store (new_splitter example_env) no_faults DocumentProcessor_default
                   ?docs (vector_store example_upload_state)"
  have kb: "map_of (knowledge_bases example_upload_state) ''kb_1'' = Some (example_kb ''kb_1'')"
    by (simp add: example_upload_state_def)
  have ext1: "path_suffix_lower example_env ''a.csv'' = ''.csv''"
    by (simp add: example_env_def)
  have ext2: "path_suffix_lower example_env (''./data/'' @ ''a.csv'') = ''.csv''"
    by (simp add: example_env_def)
  have rag: "RAG_AVAILABLE example_env"
    by (simp add: example_env_def)
  have parse: "parse_csv example_env example_csv = Inr example_dataframe"
    by (simp add: example_env_def)
  have len: "length ?docs = 2"
    by code_simp
  then have docs: "?docs \<noteq> []" by auto
  have "fst ?commit = Inr 2"
    by code_simp
  then have commit: "?commit = (Inr 2, snd ?commit)"
    by (metis prod.collapse)
  have id: "generate_doc_id example_env ''a.csv'' = ''doc_00000000''"
    by (simp add: generate_doc_id_def example_env_def)
  have rows: "length (df_rows example_dataframe) = 3"
    by (simp add: example_dataframe_def)
  from csv_upload_counts [OF kb ext1 ext2 rag parse docs commit, of 0] len rows
  show ?thesis
    by (simp add: Let_def id example_kb_def)
qed

text \<open>
  C3 as stated fails on the chunk count: for a file of three rows whose second row is
  empty, two documents are written and two chunks reach the vector store, the document
  count rises from 0 to 1, and the chunk count rises from 0 to 3. It also fails on the
  skipped row when the file has a further column: a second row with neither title nor
  description but with a rating is written as a document, so that three documents are
  written and none is skipped.
\<close>

theorem csv_chunk_count_counterexample:
  "(let st1 = fst (snd (upload_document example_env 0 None ''kb_1'' ''a.csv'' example_csv
                          example_upload_state));
        st2 = process_uploaded_document example_env no_faults ''doc_00000000''
                ''./data/a.csv'' ''kb_1'' st1
    in length (csv_documents ''./data/a.csv'' ''kb_1'' (df_columns example_dataframe) 0
                 (df_rows example_dataframe)) = 2 \<and>
       vs_count (vector_store example_upload_state) = 0 \<and>
       vs_count (vector_store st2) = 2 \<and>
       document_count_of example_upload_state ''kb_1'' = Some 0 \<and>
       document_count_of st2 ''kb_1'' = Some 1 \<and>
       chunk_count_of example_upload_state ''kb_1'' = Some 0 \<and>
       chunk_count_of st2 ''kb_1'' = Some 3 \<and>
       length (csv_documents ''./data/a.csv'' ''kb_1'' (df_columns example_rated_dataframe) 0
                 (df_rows example_rated_dataframe)) = 3)"
  by code_simp

end
